theory Spec2Isabelle
  imports Main
begin

text \<open>
  A model of the SMS gateway (package \<open>sms-gateway\<close>): the phone normalizer, the API-key
  authenticator, the delivery client, the single and bulk send handlers and the
  administrative usage reset, each written after its Go source, followed by the
  properties of the gateway's specification that were checked against them.
\<close>

section \<open>Phone normalizer (utils/phone.go)\<close>

text \<open>
  Go strings are byte sequences; they are modelled as \<open>string\<close> (a list of bytes).
  The regular expressions of the source only mention ASCII characters, and every byte of a
  multi-byte UTF-8 sequence (or an invalid byte) is neither an ASCII digit nor \<open>+\<close>, so
  working byte by byte agrees with Go's rune-wise matching.
\<close>

text \<open>The class \<open>\d\<close> of Go's regexp package: the ASCII digits.\<close>

definition is_digit :: "char \<Rightarrow> bool" where
  "is_digit c = (c \<in> set ''0123456789'')"

text \<open>
  \<open>regexp.MustCompile(`[^\d+]`).ReplaceAllString(phone, "")\<close>: every character that is
  neither a digit nor \<open>+\<close> is deleted.
\<close>

fun ReplaceAll_non_digit_plus :: "string \<Rightarrow> string" where
  "ReplaceAll_non_digit_plus [] = []"
| "ReplaceAll_non_digit_plus (c # cs) =
     (if is_digit c \<or> c = CHR ''+'' then c # ReplaceAll_non_digit_plus cs
      else ReplaceAll_non_digit_plus cs)"

text \<open>\<open>strings.HasPrefix(s, prefix)\<close>.\<close>

fun HasPrefix :: "string \<Rightarrow> string \<Rightarrow> bool" where
  "HasPrefix s [] = True"
| "HasPrefix [] (p # ps) = False"
| "HasPrefix (c # cs) (p # ps) = (c = p \<and> HasPrefix cs ps)"

text \<open>\<open>strings.TrimLeft(s, cutset)\<close>: drops the leading characters that occur in the cutset.\<close>

fun TrimLeft :: "string \<Rightarrow> string \<Rightarrow> string" where
  "TrimLeft [] cutset = []"
| "TrimLeft (c # cs) cutset = (if c \<in> set cutset then TrimLeft cs cutset else c # cs)"

definition FormatPhone :: "string \<Rightarrow> string" where
  "FormatPhone phone =
     (let cleaned = ReplaceAll_non_digit_plus phone in
      if \<not> HasPrefix cleaned ''+'' then
        let cleaned = TrimLeft cleaned ''0'';
            cleaned = (if \<not> HasPrefix cleaned ''256'' then ''256'' @ cleaned else cleaned)
        in ''+'' @ cleaned
      else cleaned)"

text \<open>
  \<open>regexp.MustCompile(`\d`).FindAllString(formatted, -1)\<close> returns one match per digit, so
  \<open>len(digits)\<close> is the number of digits of the formatted number.
\<close>

definition FindAll_digits :: "string \<Rightarrow> string list" where
  "FindAll_digits s = map (\<lambda>c. [c]) (filter is_digit s)"

definition ValidatePhone :: "string \<Rightarrow> bool" where
  "ValidatePhone phone =
     (let formatted = FormatPhone phone;
          digits = FindAll_digits formatted
      in length digits \<ge> 10 \<and> length digits \<le> 15)"

text \<open>
  The contract of the specification, word for word: keep the digits and a leading \<open>+\<close>;
  without a leading \<open>+\<close>, strip the leading zeros, prepend the country code 256 and
  then \<open>+\<close>. It is the reference the source function is compared with.
\<close>

definition spec_normalize :: "string \<Rightarrow> string" where
  "spec_normalize raw =
     (let kept = filter (\<lambda>c. is_digit c \<or> c = CHR ''+'') raw in
      if kept \<noteq> [] \<and> hd kept = CHR ''+'' then CHR ''+'' # filter is_digit (tl kept)
      else ''+'' @ ''256'' @ dropWhile (\<lambda>c. c = CHR ''0'') (filter is_digit kept))"

section \<open>Data model (models package)\<close>

text \<open>
  Go's \<open>int\<close> is taken as the 64-bit two's-complement integer of the usual server
  platforms. Values are carried as \<open>int\<close>; every addition of the source is followed by
  \<open>wrap64\<close>, which is Go's silent wrap-around. \<open>is_int64\<close> says that a value is one a
  Go \<open>int\<close> can hold.
\<close>

definition wrap64 :: "int \<Rightarrow> int" where
  "wrap64 x = (x + 2 ^ 63) mod 2 ^ 64 - 2 ^ 63"

definition is_int64 :: "int \<Rightarrow> bool" where
  "is_int64 x = (- (2 ^ 63) \<le> x \<and> x < 2 ^ 63)"

type_synonym uuid = nat
type_synonym instant = int

abbreviation (input) uuid_Nil :: uuid where
  "uuid_Nil \<equiv> 0"

record APIClient =
  ID :: uuid
  CreatedAt :: instant
  UpdatedAt :: instant
  DeletedAt :: "instant option"
  Name :: string
  Email :: string
  APIKey :: string
  APISecret :: string
  APIKeyHash :: string
  IsActive :: bool
  RateLimit :: int
  DailyLimit :: int
  MonthlyLimit :: int
  DailyUsage :: int
  MonthlyUsage :: int
  LastReset :: instant

record SMSLog =
  log_ID :: uuid
  log_CreatedAt :: instant
  ClientID :: uuid
  Recipient :: string
  log_Message :: string
  log_SenderID :: string
  log_Priority :: string
  log_Status :: string
  ProviderStatus :: string
  ProviderMessage :: string
  log_Error :: string
  IPAddress :: string
  UserAgent :: string

record SMSRequest =
  Number :: string
  req_Message :: string
  SenderID :: string
  Priority :: string

record BulkSMSRequest =
  Messages :: "SMSRequest list"

text \<open>
  \<open>SMSResponse.Data\<close> is an \<open>interface{}\<close>; the payloads built by the handlers modelled
  here are the constructors of \<open>data\<close>: none, the map of a single send that was sent
  (log id, recipient, status, provider status, provider message), the map of a single
  send that failed (log id, recipient, status), and the map of a bulk send (total,
  successful, failed, results), a result being (log id, recipient, status).
\<close>

type_synonym bulk_result = "uuid \<times> string \<times> string"

datatype data =
    No_data
  | Single_sent uuid string string string string
  | Single_failed uuid string string
  | Bulk int int int "bulk_result list"

record SMSResponse =
  Success :: bool
  resp_Message :: string
  Data :: data
  Error :: string

text \<open>What \<open>c.JSON(code, body)\<close> writes: the status code and the body.\<close>

type_synonym http_response = "nat \<times> SMSResponse"

abbreviation (input) StatusOK :: nat where "StatusOK \<equiv> 200"
abbreviation (input) StatusBadRequest :: nat where "StatusBadRequest \<equiv> 400"
abbreviation (input) StatusUnauthorized :: nat where "StatusUnauthorized \<equiv> 401"
abbreviation (input) StatusForbidden :: nat where "StatusForbidden \<equiv> 403"
abbreviation (input) StatusNotFound :: nat where "StatusNotFound \<equiv> 404"
abbreviation (input) StatusTooManyRequests :: nat where "StatusTooManyRequests \<equiv> 429"
abbreviation (input) StatusInternalServerError :: nat where "StatusInternalServerError \<equiv> 500"

section \<open>The store and the environment of a request\<close>

text \<open>
  The state the handlers act on: the two tables of the database (rows in primary-key
  order), the number of UUIDs drawn so far (\<open>uuid.New()\<close> is modelled as a fresh,
  non-nil value), and two observations of effects: the \<open>msgdata\<close> of every request
  posted to the provider, and the number of client rows written by \<open>Save\<close>.
\<close>

record msgdata =
  md_number :: string
  md_message :: string
  md_senderid :: string
  md_priority :: string

record world =
  clients :: "APIClient list"
  sms_logs :: "SMSLog list"
  uuids :: nat
  upstream_posts :: "msgdata list list"
  client_saves :: nat

text \<open>
  What a request gets from outside: the clock of the handler (\<open>time.Now()\<close>), the clock
  GORM stamps rows with, an error text when the database cannot answer a query or
  cannot take a write, the text of a violated \<open>binding\<close> tag (it is the validator
  library's), and the caller's address and user agent.
\<close>

record env =
  now :: instant
  db_now :: instant
  db_read_error :: "string option"
  db_write_error :: "string option"
  validator_text :: string
  ClientIP :: string
  User_Agent :: string

text \<open>
  \<open>database.DB.Where(cond).First(&client)\<close>: the first row that satisfies the condition
  and is not soft-deleted (\<open>DeletedAt\<close> is a \<open>gorm.DeletedAt\<close>), else an error.
\<close>

definition db_First :: "env \<Rightarrow> world \<Rightarrow> (APIClient \<Rightarrow> bool) \<Rightarrow> string + APIClient" where
  "db_First e st cond =
     (case db_read_error e of
        Some err \<Rightarrow> Inl err
      | None \<Rightarrow>
          (case find (\<lambda>c. cond c \<and> DeletedAt c = None) (clients st) of
             None \<Rightarrow> Inl ''record not found''
           | Some c \<Rightarrow> Inr c))"

text \<open>
  \<open>database.DB.Create(&smsLog)\<close>: the \<open>BeforeCreate\<close> hook of \<open>SMSLog\<close> draws a UUID when
  the id is nil, GORM fills an empty \<open>Priority\<close> with the default of its tag
  (\<open>gorm:"default:1"\<close>) and stamps \<open>CreatedAt\<close>, and the row is inserted unless the
  database refuses the write. The struct, with its id, is returned either way.
\<close>

definition db_Create_log :: "env \<Rightarrow> SMSLog \<Rightarrow> world \<Rightarrow> SMSLog \<times> world" where
  "db_Create_log e l st =
     (let (l, st) = (if log_ID l = uuid_Nil
                     then (l\<lparr>log_ID := Suc (uuids st)\<rparr>, st\<lparr>uuids := Suc (uuids st)\<rparr>)
                     else (l, st));
          l = l\<lparr>log_Priority := (if log_Priority l = [] then ''1'' else log_Priority l)\<rparr>;
          l = l\<lparr>log_CreatedAt := db_now e\<rparr>
      in case db_write_error e of
           Some err \<Rightarrow> (l, st)
         | None \<Rightarrow> (l, st\<lparr>sms_logs := sms_logs st @ [l]\<rparr>))"

text \<open>
  \<open>database.DB.Save(&client)\<close>: GORM stamps \<open>UpdatedAt\<close> and writes every field of the
  struct to the row with its primary key (inserting the row when there is none).
\<close>

definition db_Save_client :: "env \<Rightarrow> APIClient \<Rightarrow> world \<Rightarrow> string option \<times> world" where
  "db_Save_client e c st =
     (case db_write_error e of
        Some err \<Rightarrow> (Some err, st)
      | None \<Rightarrow>
          (let c' = c\<lparr>UpdatedAt := db_now e\<rparr>;
               rows = (if ID c \<in> set (map ID (clients st))
                       then map (\<lambda>r. if ID r = ID c then c' else r) (clients st)
                       else clients st @ [c'])
           in (None, st\<lparr>clients := rows, client_saves := Suc (client_saves st)\<rparr>)))"

section \<open>Delivery client (service/sms.go)\<close>

text \<open>
  What happens to the one upstream request of a call of \<open>SendSMS\<close> is decided outside the
  program. The cases follow the error checks of the source in their order:
  \<open>json.Marshal\<close> fails, \<open>http.NewRequest\<close> fails, \<open>client.Do\<close> fails (connection
  error, timeout), \<open>io.ReadAll\<close> fails, \<open>json.Unmarshal\<close> rejects the body, or the
  body decodes into a \<open>SMSProviderResponse\<close>.
\<close>

record SMSProviderResponse =
  Status :: string
  Message :: string

datatype exchange =
    Marshal_fails string
  | NewRequest_fails string
  | Do_fails string
  | ReadAll_fails string
  | Body_rejected string
  | Body_decoded SMSProviderResponse

text \<open>The exchange completed at the HTTP level: a body was read.\<close>

fun http_completed :: "exchange \<Rightarrow> bool" where
  "http_completed (Body_rejected body) = True"
| "http_completed (Body_decoded r) = True"
| "http_completed _ = False"

definition to_msgdata :: "string \<Rightarrow> SMSRequest \<Rightarrow> msgdata" where
  "to_msgdata defaultSenderID msg =
     (let senderID = (if SenderID msg = [] then defaultSenderID else SenderID msg);
          priority = (if Priority msg = [] then ''1'' else Priority msg)
      in \<lparr>md_number = FormatPhone (Number msg), md_message = req_Message msg,
          md_senderid = senderID, md_priority = priority\<rparr>)"

text \<open>
  The payload also carries the constant method name and the configured user data; only
  its \<open>msgdata\<close> depends on the messages. The request counts as posted once \<open>client.Do\<close>
  is reached.
\<close>

definition SendSMS ::
  "exchange \<Rightarrow> SMSRequest list \<Rightarrow> string \<Rightarrow> world \<Rightarrow> (string + SMSProviderResponse list) \<times> world" where
  "SendSMS x messages defaultSenderID st =
     (let payload = map (to_msgdata defaultSenderID) messages;
          posted = st\<lparr>upstream_posts := upstream_posts st @ [payload]\<rparr>
      in case x of
           Marshal_fails err \<Rightarrow> (Inl (''failed to marshal payload: '' @ err), st)
         | NewRequest_fails err \<Rightarrow> (Inl (''failed to create request: '' @ err), st)
         | Do_fails err \<Rightarrow> (Inl (''failed to send SMS request: '' @ err), posted)
         | ReadAll_fails err \<Rightarrow> (Inl (''failed to read response: '' @ err), posted)
         | Body_rejected body \<Rightarrow> (Inr [\<lparr>Status = ''Failed'', Message = body\<rparr>], posted)
         | Body_decoded providerResp \<Rightarrow> (Inr [providerResp], posted))"

section \<open>Authenticator (middleware/auth.go)\<close>

text \<open>
  \<open>bcrypt.CompareHashAndPassword\<close> is a parameter: \<open>bcrypt_ok hash password\<close> holds when
  the call returns no error. \<open>Inl\<close> is the response written before \<open>c.Abort()\<close>, \<open>Inr\<close>
  the client stored in the context before \<open>c.Next()\<close>.
\<close>

definition APIKeyAuth ::
  "(string \<Rightarrow> string \<Rightarrow> bool) \<Rightarrow> env \<Rightarrow> world \<Rightarrow> string \<Rightarrow> string \<Rightarrow> http_response + APIClient" where
  "APIKeyAuth bcrypt_ok e st apiKey apiSecret =
     (if apiKey = [] \<or> apiSecret = [] then
        Inl (StatusUnauthorized,
             \<lparr>Success = False, resp_Message = ''Missing API credentials'', Data = No_data,
              Error = ''X-API-Key and X-API-Secret headers are required''\<rparr>)
      else case db_First e st (\<lambda>c. APIKey c = apiKey) of
        Inl err \<Rightarrow>
          Inl (StatusUnauthorized,
               \<lparr>Success = False, resp_Message = ''Invalid API credentials'', Data = No_data,
                Error = ''API key not found''\<rparr>)
      | Inr client \<Rightarrow>
          if \<not> bcrypt_ok (APISecret client) apiSecret then
            Inl (StatusUnauthorized,
                 \<lparr>Success = False, resp_Message = ''Invalid API credentials'', Data = No_data,
                  Error = ''API secret mismatch''\<rparr>)
          else if \<not> IsActive client then
            Inl (StatusForbidden,
                 \<lparr>Success = False, resp_Message = ''API client is inactive'', Data = No_data,
                  Error = ''Your API access has been suspended''\<rparr>)
          else if DailyUsage client \<ge> DailyLimit client then
            Inl (StatusTooManyRequests,
                 \<lparr>Success = False, resp_Message = ''Daily limit exceeded'', Data = No_data,
                  Error = ''You have reached your daily SMS limit''\<rparr>)
          else if MonthlyUsage client \<ge> MonthlyLimit client then
            Inl (StatusTooManyRequests,
                 \<lparr>Success = False, resp_Message = ''Monthly limit exceeded'', Data = No_data,
                  Error = ''You have reached your monthly SMS limit''\<rparr>)
          else Inr client)"

section \<open>Send orchestrator (handlers/sms.go)\<close>

text \<open>
  \<open>c.ShouldBindJSON(&req)\<close>: the body is malformed JSON (with the decoder's text), or it
  decodes into the struct, whose \<open>binding\<close> tags are then checked: \<open>required\<close> on
  \<open>Number\<close> and \<open>Message\<close>, and \<open>required,min=1,dive\<close> on \<open>Messages\<close>.
\<close>

datatype 'a json_body = Malformed string | Decoded 'a

definition binding_ok :: "SMSRequest \<Rightarrow> bool" where
  "binding_ok req = (Number req \<noteq> [] \<and> req_Message req \<noteq> [])"

definition ShouldBindJSON_SMSRequest :: "env \<Rightarrow> SMSRequest json_body \<Rightarrow> string + SMSRequest" where
  "ShouldBindJSON_SMSRequest e body =
     (case body of
        Malformed err \<Rightarrow> Inl err
      | Decoded req \<Rightarrow> if binding_ok req then Inr req else Inl (validator_text e))"

definition ShouldBindJSON_BulkSMSRequest ::
  "env \<Rightarrow> BulkSMSRequest json_body \<Rightarrow> string + BulkSMSRequest" where
  "ShouldBindJSON_BulkSMSRequest e body =
     (case body of
        Malformed err \<Rightarrow> Inl err
      | Decoded req \<Rightarrow>
          if Messages req \<noteq> [] \<and> list_all binding_ok (Messages req) then Inr req
          else Inl (validator_text e))"

definition SendSingleSMS ::
  "env \<Rightarrow> exchange \<Rightarrow> SMSRequest json_body \<Rightarrow> APIClient option \<Rightarrow> world \<Rightarrow> http_response \<times> world" where
  "SendSingleSMS e x body ctx_client st =
     (case ShouldBindJSON_SMSRequest e body of
        Inl err \<Rightarrow>
          ((StatusBadRequest,
            \<lparr>Success = False, resp_Message = ''Invalid request payload'', Data = No_data,
             Error = err\<rparr>), st)
      | Inr req \<Rightarrow>
          if \<not> ValidatePhone (Number req) then
            ((StatusBadRequest,
              \<lparr>Success = False, resp_Message = ''Invalid phone number'', Data = No_data,
               Error = ''Phone number format is invalid''\<rparr>), st)
          else (case ctx_client of
            None \<Rightarrow>
              ((StatusInternalServerError,
                \<lparr>Success = False, resp_Message = ''Client not found in context'',
                 Data = No_data, Error = []\<rparr>), st)
          | Some apiClient \<Rightarrow>
              (let clientID = ID apiClient in
               (case SendSMS x [req] (Name apiClient) st of
                 (Inl err, st) \<Rightarrow>
                   (let (smsLog, st) = db_Create_log e
                          \<lparr>log_ID = uuid_Nil, log_CreatedAt = 0, ClientID = clientID,
                           Recipient = Number req, log_Message = req_Message req,
                           log_SenderID = SenderID req, log_Priority = Priority req,
                           log_Status = ''failed'', ProviderStatus = ''error'',
                           ProviderMessage = [], log_Error = err,
                           IPAddress = ClientIP e, UserAgent = User_Agent e\<rparr> st
                    in ((StatusInternalServerError,
                         \<lparr>Success = False, resp_Message = ''Failed to send SMS'',
                          Data = No_data, Error = err\<rparr>), st))
               | (Inr responses, st) \<Rightarrow>
                   (let (status, providerStatus, providerMessage, errorMsg) =
                          (if length responses > 0 then
                             (let resp = responses ! 0 in
                              if Status resp \<noteq> ''Success'' \<and> Status resp \<noteq> ''success''
                              then (''failed'', Status resp, Message resp, Message resp)
                              else (''sent'', ''Success'', Message resp, []))
                           else (''sent'', ''Success'', ''SMS sent successfully'', []));
                        (smsLog, st) = db_Create_log e
                          \<lparr>log_ID = uuid_Nil, log_CreatedAt = 0, ClientID = clientID,
                           Recipient = FormatPhone (Number req), log_Message = req_Message req,
                           log_SenderID = SenderID req, log_Priority = Priority req,
                           log_Status = status, ProviderStatus = providerStatus,
                           ProviderMessage = providerMessage, log_Error = errorMsg,
                           IPAddress = ClientIP e, UserAgent = User_Agent e\<rparr> st;
                        st = (if status = ''sent''
                              then snd (db_Save_client e
                                     (apiClient\<lparr>DailyUsage := wrap64 (DailyUsage apiClient + 1),
                                                MonthlyUsage := wrap64 (MonthlyUsage apiClient + 1)\<rparr>) st)
                              else st)
                    in if status = ''sent'' then
                         ((StatusOK,
                           \<lparr>Success = True, resp_Message = ''SMS sent successfully'',
                            Data = Single_sent (log_ID smsLog) (Recipient smsLog) status
                                     providerStatus providerMessage,
                            Error = []\<rparr>), st)
                       else
                         ((StatusOK,
                           \<lparr>Success = False, resp_Message = ''SMS failed to send'',
                            Data = Single_failed (log_ID smsLog) (Recipient smsLog) status,
                            Error = errorMsg\<rparr>), st))))))"

text \<open>
  The response the loop of \<open>SendBulkSMS\<close> takes for the message at index \<open>i\<close>: the one at
  the same position, else the first one, else the zero value of \<open>SMSProviderResponse\<close>
  that \<open>var resp\<close> starts with.
\<close>

definition response_at :: "SMSProviderResponse list \<Rightarrow> nat \<Rightarrow> SMSProviderResponse" where
  "response_at responses i =
     (if i < length responses then responses ! i
      else if length responses > 0 then responses ! 0
      else \<lparr>Status = [], Message = []\<rparr>)"

text \<open>
  The loop \<open>for i, msg := range req.Messages\<close> of \<open>SendBulkSMS\<close>, with its index, its
  accumulators (\<open>results\<close>, \<open>successCount\<close>, \<open>failedCount\<close>) and the state.
\<close>

fun bulk_loop ::
  "env \<Rightarrow> uuid \<Rightarrow> SMSProviderResponse list \<Rightarrow> nat \<Rightarrow> SMSRequest list \<Rightarrow>
   bulk_result list \<Rightarrow> int \<Rightarrow> int \<Rightarrow> world \<Rightarrow> bulk_result list \<times> int \<times> int \<times> world" where
  "bulk_loop e clientID responses i [] results successCount failedCount st =
     (results, successCount, failedCount, st)"
| "bulk_loop e clientID responses i (msg # rest) results successCount failedCount st =
     (let resp = response_at responses i;
          failed = (Status resp \<noteq> ''Success'' \<and> Status resp \<noteq> ''success'');
          status = (if failed then ''failed'' else ''sent'');
          providerStatus = (if failed then Status resp else ''Success'');
          providerMessage = (if failed then Message resp else ''SMS sent successfully'');
          errorMsg = (if failed then Message resp else []);
          failedCount = (if failed then wrap64 (failedCount + 1) else failedCount);
          successCount = (if failed then successCount else wrap64 (successCount + 1));
          (smsLog, st) = db_Create_log e
            \<lparr>log_ID = uuid_Nil, log_CreatedAt = 0, ClientID = clientID,
             Recipient = FormatPhone (Number msg), log_Message = req_Message msg,
             log_SenderID = SenderID msg, log_Priority = Priority msg,
             log_Status = status, ProviderStatus = providerStatus,
             ProviderMessage = providerMessage, log_Error = errorMsg,
             IPAddress = ClientIP e, UserAgent = User_Agent e\<rparr> st
      in bulk_loop e clientID responses (Suc i) rest
           (results @ [(log_ID smsLog, Recipient smsLog, status)]) successCount failedCount st)"

definition SendBulkSMS ::
  "env \<Rightarrow> exchange \<Rightarrow> BulkSMSRequest json_body \<Rightarrow> APIClient option \<Rightarrow> world \<Rightarrow> http_response \<times> world" where
  "SendBulkSMS e x body ctx_client st =
     (case ShouldBindJSON_BulkSMSRequest e body of
        Inl err \<Rightarrow>
          ((StatusBadRequest,
            \<lparr>Success = False, resp_Message = ''Invalid request payload'', Data = No_data,
             Error = err\<rparr>), st)
      | Inr req \<Rightarrow>
          (case find (\<lambda>msg. \<not> ValidatePhone (Number msg)) (Messages req) of
             Some msg \<Rightarrow>
               ((StatusBadRequest,
                 \<lparr>Success = False, resp_Message = ''Invalid phone number in messages'',
                  Data = No_data,
                  Error = ''Phone number '' @ Number msg @ '' is invalid''\<rparr>), st)
           | None \<Rightarrow>
               (case ctx_client of
                  None \<Rightarrow>
                    ((StatusInternalServerError,
                      \<lparr>Success = False, resp_Message = ''Client not found in context'',
                       Data = No_data, Error = []\<rparr>), st)
                | Some apiClient \<Rightarrow>
                    (let clientID = ID apiClient in
                     if wrap64 (DailyUsage apiClient + int (length (Messages req)))
                          > DailyLimit apiClient then
                       ((StatusTooManyRequests,
                         \<lparr>Success = False,
                          resp_Message = ''Bulk request would exceed daily limit'',
                          Data = No_data,
                          Error = ''Requested messages exceed available daily quota''\<rparr>), st)
                     else
                       (case SendSMS x (Messages req) (Name apiClient) st of
                          (Inl err, st) \<Rightarrow>
                            ((StatusInternalServerError,
                              \<lparr>Success = False, resp_Message = ''Failed to send bulk SMS'',
                               Data = No_data, Error = err\<rparr>), st)
                        | (Inr responses, st) \<Rightarrow>
                            (let (results, successCount, failedCount, st) =
                                   bulk_loop e clientID responses 0 (Messages req) [] 0 0 st;
                                 st = snd (db_Save_client e
                                        (apiClient\<lparr>DailyUsage :=
                                                     wrap64 (DailyUsage apiClient + successCount),
                                                   MonthlyUsage :=
                                                     wrap64 (MonthlyUsage apiClient + successCount)\<rparr>) st)
                             in ((StatusOK,
                                  \<lparr>Success = True,
                                   resp_Message = ''Bulk SMS processing completed'',
                                   Data = Bulk (int (length (Messages req))) successCount
                                            failedCount results,
                                   Error = []\<rparr>), st)))))))"

section \<open>Administrative usage reset (handlers/client.go)\<close>

text \<open>
  The path parameter \<open>id\<close> is a string; one that is no UUID matches no row, so the
  parameter is taken as a UUID.
\<close>

definition ResetClientUsage :: "env \<Rightarrow> uuid \<Rightarrow> world \<Rightarrow> http_response \<times> world" where
  "ResetClientUsage e clientID st =
     (case db_First e st (\<lambda>c. ID c = clientID) of
        Inl err \<Rightarrow>
          ((StatusNotFound,
            \<lparr>Success = False, resp_Message = ''Client not found'', Data = No_data,
             Error = []\<rparr>), st)
      | Inr client \<Rightarrow>
          (let client = client\<lparr>DailyUsage := 0\<rparr>;
               client = client\<lparr>MonthlyUsage := 0\<rparr>;
               client = client\<lparr>LastReset := now e\<rparr>
           in case db_Save_client e client st of
                (Some err, st) \<Rightarrow>
                  ((StatusInternalServerError,
                    \<lparr>Success = False, resp_Message = ''Failed to reset usage'',
                     Data = No_data, Error = err\<rparr>), st)
              | (None, st) \<Rightarrow>
                  ((StatusOK,
                    \<lparr>Success = True, resp_Message = ''Client usage reset successfully'',
                     Data = No_data, Error = []\<rparr>), st)))"

section \<open>Routes (main.go)\<close>

text \<open>
  The group \<open>/api/v1/sms\<close> runs \<open>APIKeyAuth\<close> before each of its handlers: an aborted
  request never reaches the handler, an accepted one finds the client in the context.
\<close>

definition POST_sms_send ::
  "(string \<Rightarrow> string \<Rightarrow> bool) \<Rightarrow> env \<Rightarrow> exchange \<Rightarrow> string \<Rightarrow> string \<Rightarrow> SMSRequest json_body \<Rightarrow>
   world \<Rightarrow> http_response \<times> world" where
  "POST_sms_send bcrypt_ok e x apiKey apiSecret body st =
     (case APIKeyAuth bcrypt_ok e st apiKey apiSecret of
        Inl response \<Rightarrow> (response, st)
      | Inr client \<Rightarrow> SendSingleSMS e x body (Some client) st)"

definition POST_sms_send_bulk ::
  "(string \<Rightarrow> string \<Rightarrow> bool) \<Rightarrow> env \<Rightarrow> exchange \<Rightarrow> string \<Rightarrow> string \<Rightarrow> BulkSMSRequest json_body \<Rightarrow>
   world \<Rightarrow> http_response \<times> world" where
  "POST_sms_send_bulk bcrypt_ok e x apiKey apiSecret body st =
     (case APIKeyAuth bcrypt_ok e st apiKey apiSecret of
        Inl response \<Rightarrow> (response, st)
      | Inr client \<Rightarrow> SendBulkSMS e x body (Some client) st)"

section \<open>Vocabulary of the properties and example data\<close>

text \<open>
  A case-insensitive match of two ASCII strings, as the specification words the test of
  the provider status (Go's \<open>strings.EqualFold\<close> on ASCII). The handlers do not use it.
\<close>

definition ascii_lower :: "char \<Rightarrow> char" where
  "ascii_lower c =
     (case map_of (zip ''ABCDEFGHIJKLMNOPQRSTUVWXYZ'' ''abcdefghijklmnopqrstuvwxyz'') c of
        Some l \<Rightarrow> l
      | None \<Rightarrow> c)"

definition EqualFold :: "string \<Rightarrow> string \<Rightarrow> bool" where
  "EqualFold s t = (map ascii_lower s = map ascii_lower t)"

text \<open>
  A client two messages short of its daily limit and one short of its monthly limit, a
  client at its daily limit and above its monthly limit, a store that holds both, an
  environment whose database works, a stand-in for bcrypt, and a valid message.
\<close>

definition example_client :: APIClient where
  "example_client =
     \<lparr>ID = 7, CreatedAt = 1, UpdatedAt = 2, DeletedAt = None, Name = ''Acme'',
      Email = ''ops@acme.example'', APIKey = ''key-1'', APISecret = ''hash:s3cret'',
      APIKeyHash = [], IsActive = True, RateLimit = 100, DailyLimit = 10, MonthlyLimit = 20,
      DailyUsage = 8, MonthlyUsage = 19, LastReset = 0\<rparr>"

definition exhausted_client :: APIClient where
  "exhausted_client =
     \<lparr>ID = 9, CreatedAt = 1, UpdatedAt = 3, DeletedAt = None, Name = ''Bulk Co'',
      Email = ''ops@bulk.example'', APIKey = ''key-9'', APISecret = ''hash:t0ken'',
      APIKeyHash = [], IsActive = True, RateLimit = 100, DailyLimit = 10, MonthlyLimit = 20,
      DailyUsage = 10, MonthlyUsage = 25, LastReset = 0\<rparr>"

definition example_world :: world where
  "example_world =
     \<lparr>clients = [example_client, exhausted_client], sms_logs = [], uuids = 0,
      upstream_posts = [], client_saves = 0\<rparr>"

text \<open>
  A client whose daily limit is the largest Go int and who is one message short of it,
  and a store that holds it.
\<close>

definition brim_client :: APIClient where
  "brim_client =
     \<lparr>ID = 11, CreatedAt = 1, UpdatedAt = 4, DeletedAt = None, Name = ''Brim'',
      Email = ''ops@brim.example'', APIKey = ''key-11'', APISecret = ''hash:s3cret'',
      APIKeyHash = [], IsActive = True, RateLimit = 100,
      DailyLimit = 9223372036854775807, MonthlyLimit = 9223372036854775807,
      DailyUsage = 9223372036854775806, MonthlyUsage = 0, LastReset = 0\<rparr>"

definition brim_world :: world where
  "brim_world =
     \<lparr>clients = [brim_client], sms_logs = [], uuids = 0, upstream_posts = [],
      client_saves = 0\<rparr>"

definition example_env :: env where
  "example_env =
     \<lparr>now = 100, db_now = 101, db_read_error = None, db_write_error = None,
      validator_text = ''validation failed'', ClientIP = ''192.0.2.1'', User_Agent = ''curl''\<rparr>"

definition example_bcrypt :: "string \<Rightarrow> string \<Rightarrow> bool" where
  "example_bcrypt hash password = (hash = ''hash:'' @ password)"

definition example_message :: SMSRequest where
  "example_message =
     \<lparr>Number = ''0701234567'', req_Message = ''hello'', SenderID = [], Priority = []\<rparr>"

section \<open>Phone normalizer: properties\<close>

lemma ReplaceAll_non_digit_plus_filter:
  "ReplaceAll_non_digit_plus s = filter (\<lambda>c. is_digit c \<or> c = CHR ''+'') s"
  by (induction s) auto

lemma TrimLeft_dropWhile: "TrimLeft s cutset = dropWhile (\<lambda>c. c \<in> set cutset) s"
  by (induction s) auto

lemma HasPrefix_take: "HasPrefix s p = (take (length p) s = p)"
  by (induction s p rule: HasPrefix.induct) auto

lemma FormatPhone_starts_with_plus: "HasPrefix (FormatPhone p) ''+''"
  by (simp add: FormatPhone_def Let_def)

lemma FormatPhone_chars: "c \<in> set (FormatPhone p) \<Longrightarrow> is_digit c \<or> c = CHR ''+''"
  by (auto simp: FormatPhone_def Let_def ReplaceAll_non_digit_plus_filter TrimLeft_dropWhile
        is_digit_def split: if_splits dest: set_dropWhileD)

lemma ReplaceAll_non_digit_plus_id:
  "(\<And>c. c \<in> set s \<Longrightarrow> is_digit c \<or> c = CHR ''+'') \<Longrightarrow> ReplaceAll_non_digit_plus s = s"
  by (induction s) auto

text \<open>
  Claim C3, as the code has it. \<open>FormatPhone\<close> keeps the digits and every \<open>+\<close> (not
  only a leading one). When the cleaned string starts with \<open>+\<close> it is the result.
  Otherwise the leading zeros are stripped and \<open>+\<close> is prepended, with the country
  code 256 in between unless the stripped string already starts with 256. The two
  examples of the claim hold.
\<close>

theorem FormatPhone_characterisation:
  "FormatPhone raw =
     (let cleaned = filter (\<lambda>c. is_digit c \<or> c = CHR ''+'') raw in
      if take 1 cleaned = ''+'' then cleaned
      else let stripped = dropWhile (\<lambda>c. c = CHR ''0'') cleaned in
           if take 3 stripped = ''256'' then ''+'' @ stripped else ''+256'' @ stripped)
   \<and> FormatPhone ''0701234567'' = ''+256701234567''
   \<and> FormatPhone ''+256701234567'' = ''+256701234567''"
proof (intro conjI)
  show "FormatPhone raw =
     (let cleaned = filter (\<lambda>c. is_digit c \<or> c = CHR ''+'') raw in
      if take 1 cleaned = ''+'' then cleaned
      else let stripped = dropWhile (\<lambda>c. c = CHR ''0'') cleaned in
           if take 3 stripped = ''256'' then ''+'' @ stripped else ''+256'' @ stripped)"
    by (simp add: FormatPhone_def ReplaceAll_non_digit_plus_filter TrimLeft_dropWhile
          HasPrefix_take Let_def numeral_3_eq_3)
  show "FormatPhone ''0701234567'' = ''+256701234567''"
    by (simp add: FormatPhone_def is_digit_def)
  show "FormatPhone ''+256701234567'' = ''+256701234567''"
    by (simp add: FormatPhone_def is_digit_def)
qed

theorem FormatPhone_characterisation_witness:
  "FormatPhone ''256 701-234567'' = ''+256701234567''"
  using FormatPhone_characterisation [of "''256 701-234567''"]
  by (simp add: is_digit_def)

text \<open>
  Claim C3 as stated fails: the cleaned form of \<open>256701234567\<close> has no leading \<open>+\<close>, and
  the code does not prepend the country code to it, while the contract as worded does.
  It also fails on \<open>0701+234567\<close>: the code keeps the \<open>+\<close> in the middle, which is not a
  leading one.
\<close>

theorem FormatPhone_keeps_existing_country_code:
  "\<not> HasPrefix (ReplaceAll_non_digit_plus ''256701234567'') ''+''
   \<and> FormatPhone ''256701234567'' = ''+256701234567''
   \<and> spec_normalize ''256701234567'' = ''+256256701234567''
   \<and> FormatPhone ''0701+234567'' = ''+256701+234567''
   \<and> spec_normalize ''0701+234567'' = ''+256701234567''"
  by (simp add: FormatPhone_def spec_normalize_def is_digit_def)

text \<open>
  Claim C9: normalization is idempotent on every input string, and the validity verdict
  of a normalized number is the verdict of the number it came from.
\<close>

theorem FormatPhone_idempotent:
  "FormatPhone (FormatPhone n) = FormatPhone n
   \<and> ValidatePhone (FormatPhone n) = ValidatePhone n"
proof -
  have kept: "ReplaceAll_non_digit_plus (FormatPhone n) = FormatPhone n"
    by (rule ReplaceAll_non_digit_plus_id) (rule FormatPhone_chars)
  have idem: "FormatPhone (FormatPhone n) = FormatPhone n"
    using FormatPhone_starts_with_plus [of n]
    by (subst (1) FormatPhone_def) (simp add: kept Let_def)
  then show ?thesis
    by (simp add: ValidatePhone_def)
qed

theorem FormatPhone_idempotent_witness:
  "FormatPhone (FormatPhone ''0701 234 567'') = ''+256701234567''
   \<and> ValidatePhone (FormatPhone ''0701 234 567'') \<and> ValidatePhone ''0701 234 567''"
  using FormatPhone_idempotent [of "''0701 234 567''"]
  by (simp add: FormatPhone_def ValidatePhone_def FindAll_digits_def is_digit_def)

section \<open>Store and delivery client: auxiliary facts\<close>

lemma wrap64_id: "is_int64 x \<Longrightarrow> wrap64 x = x"
  by (simp add: wrap64_def is_int64_def)

lemma find_Some_mem: "find P xs = Some x \<Longrightarrow> x \<in> set xs \<and> P x"
  by (induction xs) (auto split: if_splits)

lemma find_map_replace:
  assumes "find (\<lambda>c. ID c = k \<and> DeletedAt c = None) rows = Some c"
    and "ID c' = k" and "DeletedAt c' = None"
  shows "find (\<lambda>c. ID c = k \<and> DeletedAt c = None)
           (map (\<lambda>r. if ID r = k then c' else r) rows) = Some c'"
  using assms by (induction rows) (auto split: if_splits)

lemma db_First_Inr:
  "db_First e st cond = Inr c \<Longrightarrow>
     db_read_error e = None \<and> c \<in> set (clients st) \<and> cond c \<and> DeletedAt c = None
     \<and> find (\<lambda>c. cond c \<and> DeletedAt c = None) (clients st) = Some c"
  by (auto simp: db_First_def split: option.splits dest: find_Some_mem)

lemma SendSMS_Inr:
  "SendSMS x ms d st = (Inr rs, st1) \<Longrightarrow>
     http_completed x \<and> (\<exists>r. rs = [r])
     \<and> st1 = st\<lparr>upstream_posts := upstream_posts st @ [map (to_msgdata d) ms]\<rparr>"
  by (cases x) (auto simp add: SendSMS_def)

lemma SendSMS_completed:
  "http_completed x \<Longrightarrow>
     \<exists>r. SendSMS x ms d st =
           (Inr [r], st\<lparr>upstream_posts := upstream_posts st @ [map (to_msgdata d) ms]\<rparr>)"
  by (cases x) (simp_all add: SendSMS_def)

lemma example_message_valid:
  "ValidatePhone (Number example_message)" "binding_ok example_message"
  by (simp_all add: ValidatePhone_def FormatPhone_def FindAll_digits_def is_digit_def
        example_message_def binding_ok_def)

lemma example_lookups:
  "db_First example_env example_world (\<lambda>c. APIKey c = ''key-1'') = Inr example_client"
  "db_First example_env example_world (\<lambda>c. APIKey c = ''key-2'') = Inl ''record not found''"
  "db_First example_env example_world (\<lambda>c. ID c = 9) = Inr exhausted_client"
  by (simp_all add: db_First_def example_env_def example_world_def example_client_def
        exhausted_client_def)

lemma APIKeyAuth_Inr:
  "APIKeyAuth bcrypt_ok e st apiKey apiSecret = Inr c \<Longrightarrow>
     c \<in> set (clients st) \<and> APIKey c = apiKey \<and> DeletedAt c = None \<and> IsActive c
     \<and> DailyUsage c < DailyLimit c \<and> MonthlyUsage c < MonthlyLimit c
     \<and> bcrypt_ok (APISecret c) apiSecret"
  by (auto simp: APIKeyAuth_def split: if_splits sum.splits dest!: db_First_Inr)

text \<open>
  What the loop of the bulk handler does, for counters that cannot overflow: one log
  struct per message, in order, each classified from the response taken for its index;
  the counters count the structs by status; the rows are inserted when the database
  takes writes; nothing else changes.
\<close>

lemma bulk_loop_effect:
  assumes bounds: "0 \<le> sc" "0 \<le> fc" "sc + fc + int (length msgs) < 2 ^ 63"
  shows "\<exists>newlogs sc' fc' st'.
     bulk_loop e cid rs i msgs results sc fc st =
       (results @ map (\<lambda>l. (log_ID l, Recipient l, log_Status l)) newlogs, sc', fc', st')
   \<and> sms_logs st' = (if db_write_error e = None then sms_logs st @ newlogs else sms_logs st)
   \<and> length newlogs = length msgs
   \<and> sc' = sc + int (length (filter (\<lambda>l. log_Status l = ''sent'') newlogs))
   \<and> fc' = fc + int (length (filter (\<lambda>l. log_Status l \<noteq> ''sent'') newlogs))
   \<and> clients st' = clients st \<and> upstream_posts st' = upstream_posts st
   \<and> client_saves st' = client_saves st
   \<and> (\<forall>k<length msgs.
         log_Status (newlogs ! k) =
           (if Status (response_at rs (i + k)) \<noteq> ''Success'' \<and> Status (response_at rs (i + k)) \<noteq> ''success''
            then ''failed'' else ''sent'')
       \<and> Recipient (newlogs ! k) = FormatPhone (Number (msgs ! k))
       \<and> ClientID (newlogs ! k) = cid)"
  using bounds
proof (induction msgs arbitrary: i results sc fc st)
  case Nil
  then show ?case by simp
next
  case (Cons msg rest)
  define failed where "failed = (Status (response_at rs i) \<noteq> ''Success'' \<and> Status (response_at rs i) \<noteq> ''success'')"
  define l where "l =
     \<lparr>log_ID = Suc (uuids st), log_CreatedAt = db_now e, ClientID = cid,
      Recipient = FormatPhone (Number msg), log_Message = req_Message msg,
      log_SenderID = SenderID msg,
      log_Priority = (if Priority msg = [] then ''1'' else Priority msg),
      log_Status = (if failed then ''failed'' else ''sent''),
      ProviderStatus = (if failed then Status (response_at rs i) else ''Success''),
      ProviderMessage = (if failed then Message (response_at rs i) else ''SMS sent successfully''),
      log_Error = (if failed then Message (response_at rs i) else []),
      IPAddress = ClientIP e, UserAgent = User_Agent e\<rparr>"
  define st1 where "st1 =
     (if db_write_error e = None
      then st\<lparr>uuids := Suc (uuids st), sms_logs := sms_logs st @ [l]\<rparr>
      else st\<lparr>uuids := Suc (uuids st)\<rparr>)"
  define sc1 where "sc1 = (if failed then sc else sc + 1)"
  define fc1 where "fc1 = (if failed then fc + 1 else fc)"
  have w1: "wrap64 (sc + 1) = sc + 1" "wrap64 (fc + 1) = fc + 1"
    using Cons.prems by (auto intro!: wrap64_id simp: is_int64_def)
  have step: "bulk_loop e cid rs i (msg # rest) results sc fc st =
      bulk_loop e cid rs (Suc i) rest (results @ [(log_ID l, Recipient l, log_Status l)]) sc1 fc1 st1"
    by (cases "db_write_error e")
       (simp_all add: db_Create_log_def Let_def w1 l_def st1_def sc1_def fc1_def failed_def)
  have b1: "0 \<le> sc1" "0 \<le> fc1" "sc1 + fc1 + int (length rest) < 2 ^ 63"
    using Cons.prems by (auto simp: sc1_def fc1_def)
  from Cons.IH[OF b1, of "Suc i" "results @ [(log_ID l, Recipient l, log_Status l)]" st1]
  obtain newlogs sc' fc' st' where
    run: "bulk_loop e cid rs (Suc i) rest (results @ [(log_ID l, Recipient l, log_Status l)]) sc1 fc1 st1 =
       ((results @ [(log_ID l, Recipient l, log_Status l)]) @ map (\<lambda>l. (log_ID l, Recipient l, log_Status l)) newlogs, sc', fc', st')"
    and logs: "sms_logs st' = (if db_write_error e = None then sms_logs st1 @ newlogs else sms_logs st1)"
    and len: "length newlogs = length rest"
    and sc': "sc' = sc1 + int (length (filter (\<lambda>l. log_Status l = ''sent'') newlogs))"
    and fc': "fc' = fc1 + int (length (filter (\<lambda>l. log_Status l \<noteq> ''sent'') newlogs))"
    and frame: "clients st' = clients st1" "upstream_posts st' = upstream_posts st1" "client_saves st' = client_saves st1"
    and each: "\<forall>k<length rest.
         log_Status (newlogs ! k) =
           (if Status (response_at rs (Suc i + k)) \<noteq> ''Success'' \<and> Status (response_at rs (Suc i + k)) \<noteq> ''success''
            then ''failed'' else ''sent'')
       \<and> Recipient (newlogs ! k) = FormatPhone (Number (rest ! k))
       \<and> ClientID (newlogs ! k) = cid"
    by blast
  have lstat: "log_Status l = (if failed then ''failed'' else ''sent'')"
    and lrec: "Recipient l = FormatPhone (Number msg)" and lcid: "ClientID l = cid"
    by (simp_all add: l_def)
  have each': "\<forall>k<length (msg # rest).
         log_Status ((l # newlogs) ! k) =
           (if Status (response_at rs (i + k)) \<noteq> ''Success'' \<and> Status (response_at rs (i + k)) \<noteq> ''success''
            then ''failed'' else ''sent'')
       \<and> Recipient ((l # newlogs) ! k) = FormatPhone (Number ((msg # rest) ! k))
       \<and> ClientID ((l # newlogs) ! k) = cid"
  proof (intro allI impI)
    fix k assume "k < length (msg # rest)"
    show "log_Status ((l # newlogs) ! k) =
           (if Status (response_at rs (i + k)) \<noteq> ''Success'' \<and> Status (response_at rs (i + k)) \<noteq> ''success''
            then ''failed'' else ''sent'')
       \<and> Recipient ((l # newlogs) ! k) = FormatPhone (Number ((msg # rest) ! k))
       \<and> ClientID ((l # newlogs) ! k) = cid"
    proof (cases k)
      case 0
      then show ?thesis using lstat lrec lcid by (simp add: failed_def)
    next
      case (Suc j)
      then have "j < length rest" using \<open>k < length (msg # rest)\<close> by simp
      with each Suc show ?thesis by simp
    qed
  qed
  show ?case
  proof (intro exI conjI)
    show "bulk_loop e cid rs i (msg # rest) results sc fc st =
       (results @ map (\<lambda>l. (log_ID l, Recipient l, log_Status l)) (l # newlogs), sc', fc', st')"
      using step run by simp
    show "sms_logs st' = (if db_write_error e = None then sms_logs st @ (l # newlogs) else sms_logs st)"
      using logs by (simp add: st1_def)
    show "length (l # newlogs) = length (msg # rest)" using len by simp
    show "sc' = sc + int (length (filter (\<lambda>l. log_Status l = ''sent'') (l # newlogs)))"
      using sc' lstat by (simp add: sc1_def)
    show "fc' = fc + int (length (filter (\<lambda>l. log_Status l \<noteq> ''sent'') (l # newlogs)))"
      using fc' lstat by (simp add: fc1_def)
    show "clients st' = clients st" "upstream_posts st' = upstream_posts st" "client_saves st' = client_saves st"
      using frame by (simp_all add: st1_def)
    show "\<forall>k<length (msg # rest).
         log_Status ((l # newlogs) ! k) =
           (if Status (response_at rs (i + k)) \<noteq> ''Success'' \<and> Status (response_at rs (i + k)) \<noteq> ''success''
            then ''failed'' else ''sent'')
       \<and> Recipient ((l # newlogs) ! k) = FormatPhone (Number ((msg # rest) ! k))
       \<and> ClientID ((l # newlogs) ! k) = cid"
      by (rule each')
  qed
qed

text \<open>
  A bulk request that passes binding, phone validation and the pre-check, and whose
  upstream exchange returns a body: the single outcome of the delivery client, the
  response, and the state left behind.
\<close>

lemma response_at_single: "response_at [r] k = r"
  by (simp add: response_at_def)

lemma SendBulkSMS_accepted:
  assumes nonempty: "Messages req \<noteq> []" and bound: "list_all binding_ok (Messages req)"
    and valid: "list_all (\<lambda>msg. ValidatePhone (Number msg)) (Messages req)"
    and completed: "http_completed x"
    and precheck: "\<not> wrap64 (DailyUsage c + int (length (Messages req))) > DailyLimit c"
    and len64: "is_int64 (int (length (Messages req)))"
  obtains (accepted) outcome newlogs successCount where
      "SendSMS x (Messages req) (Name c) st =
        (Inr [outcome],
         st\<lparr>upstream_posts := upstream_posts st @ [map (to_msgdata (Name c)) (Messages req)]\<rparr>)"
    and "successCount = int (length (filter (\<lambda>l. log_Status l = ''sent'') newlogs))"
    and "fst (SendBulkSMS e x (Decoded req) (Some c) st) =
        (StatusOK,
         \<lparr>Success = True, resp_Message = ''Bulk SMS processing completed'',
          Data = Bulk (int (length (Messages req))) successCount
                   (int (length (filter (\<lambda>l. log_Status l \<noteq> ''sent'') newlogs)))
                   (map (\<lambda>l. (log_ID l, Recipient l, log_Status l)) newlogs),
          Error = []\<rparr>)"
    and "length newlogs = length (Messages req)"
    and "sms_logs (snd (SendBulkSMS e x (Decoded req) (Some c) st)) =
        (if db_write_error e = None then sms_logs st @ newlogs else sms_logs st)"
    and "clients (snd (SendBulkSMS e x (Decoded req) (Some c) st)) =
        (if db_write_error e = None
         then (if ID c \<in> ID ` set (clients st)
               then map (\<lambda>r. if ID r = ID c
                   then c\<lparr>DailyUsage := wrap64 (DailyUsage c + successCount),
                          MonthlyUsage := wrap64 (MonthlyUsage c + successCount),
                          UpdatedAt := db_now e\<rparr>
                   else r) (clients st)
               else clients st @ [c\<lparr>DailyUsage := wrap64 (DailyUsage c + successCount),
                          MonthlyUsage := wrap64 (MonthlyUsage c + successCount),
                          UpdatedAt := db_now e\<rparr>])
         else clients st)"
    and "client_saves (snd (SendBulkSMS e x (Decoded req) (Some c) st)) =
        (if db_write_error e = None then Suc (client_saves st) else client_saves st)"
    and "upstream_posts (snd (SendBulkSMS e x (Decoded req) (Some c) st)) =
        upstream_posts st @ [map (to_msgdata (Name c)) (Messages req)]"
    and "\<forall>k<length (Messages req).
          log_Status (newlogs ! k) =
            (if Status outcome \<noteq> ''Success'' \<and> Status outcome \<noteq> ''success''
             then ''failed'' else ''sent'')
        \<and> Recipient (newlogs ! k) = FormatPhone (Number (Messages req ! k))
        \<and> ClientID (newlogs ! k) = ID c"
proof -
  let ?N = "int (length (Messages req))"
  let ?st1 = "st\<lparr>upstream_posts := upstream_posts st @ [map (to_msgdata (Name c)) (Messages req)]\<rparr>"
  from SendSMS_completed [OF completed, of "Messages req" "Name c" st]
  obtain outcome where send: "SendSMS x (Messages req) (Name c) st = (Inr [outcome], ?st1)"
    by blast
  have nf: "find (\<lambda>msg. \<not> ValidatePhone (Number msg)) (Messages req) = None"
    using valid by (simp add: find_None_iff list_all_iff)
  have lb: "(0::int) + 0 + ?N < 2 ^ 63"
    using len64 by (simp add: is_int64_def)
  from bulk_loop_effect [OF _ _ lb, of e "ID c" "[outcome]" 0 "[]" ?st1]
  obtain newlogs sc' fc' st' where
    run: "bulk_loop e (ID c) [outcome] 0 (Messages req) [] 0 0 ?st1 =
       (map (\<lambda>l. (log_ID l, Recipient l, log_Status l)) newlogs, sc', fc', st')"
    and logs: "sms_logs st' = (if db_write_error e = None then sms_logs st @ newlogs else sms_logs st)"
    and len: "length newlogs = length (Messages req)"
    and sc': "sc' = int (length (filter (\<lambda>l. log_Status l = ''sent'') newlogs))"
    and fc': "fc' = int (length (filter (\<lambda>l. log_Status l \<noteq> ''sent'') newlogs))"
    and frame: "clients st' = clients st" "upstream_posts st' = upstream_posts ?st1"
       "client_saves st' = client_saves st"
    and each: "\<forall>k<length (Messages req).
          log_Status (newlogs ! k) =
            (if Status outcome \<noteq> ''Success'' \<and> Status outcome \<noteq> ''success''
             then ''failed'' else ''sent'')
        \<and> Recipient (newlogs ! k) = FormatPhone (Number (Messages req ! k))
        \<and> ClientID (newlogs ! k) = ID c"
    by (auto simp add: response_at_single)
  let ?c' = "c\<lparr>DailyUsage := wrap64 (DailyUsage c + sc'),
               MonthlyUsage := wrap64 (MonthlyUsage c + sc')\<rparr>"
  have result: "SendBulkSMS e x (Decoded req) (Some c) st =
     ((StatusOK,
         \<lparr>Success = True, resp_Message = ''Bulk SMS processing completed'',
          Data = Bulk ?N sc' fc' (map (\<lambda>l. (log_ID l, Recipient l, log_Status l)) newlogs),
          Error = []\<rparr>),
      snd (db_Save_client e ?c' st'))"
    using nonempty bound precheck
    by (simp add: SendBulkSMS_def ShouldBindJSON_BulkSMSRequest_def nf send run Let_def)
  show thesis
  proof (rule accepted [where outcome = outcome and newlogs = newlogs and successCount = sc'])
    show "SendSMS x (Messages req) (Name c) st = (Inr [outcome], ?st1)"
      by (rule send)
    show "sc' = int (length (filter (\<lambda>l. log_Status l = ''sent'') newlogs))"
      by (rule sc')
    show "fst (SendBulkSMS e x (Decoded req) (Some c) st) =
        (StatusOK,
         \<lparr>Success = True, resp_Message = ''Bulk SMS processing completed'',
          Data = Bulk ?N sc'
                   (int (length (filter (\<lambda>l. log_Status l \<noteq> ''sent'') newlogs)))
                   (map (\<lambda>l. (log_ID l, Recipient l, log_Status l)) newlogs),
          Error = []\<rparr>)"
      by (simp add: result fc')
    show "length newlogs = length (Messages req)"
      by (rule len)
    show "sms_logs (snd (SendBulkSMS e x (Decoded req) (Some c) st)) =
        (if db_write_error e = None then sms_logs st @ newlogs else sms_logs st)"
      using logs by (cases "db_write_error e") (simp_all add: result db_Save_client_def Let_def)
    show "clients (snd (SendBulkSMS e x (Decoded req) (Some c) st)) =
        (if db_write_error e = None
         then (if ID c \<in> ID ` set (clients st)
               then map (\<lambda>r. if ID r = ID c
                   then c\<lparr>DailyUsage := wrap64 (DailyUsage c + sc'),
                          MonthlyUsage := wrap64 (MonthlyUsage c + sc'),
                          UpdatedAt := db_now e\<rparr>
                   else r) (clients st)
               else clients st @ [c\<lparr>DailyUsage := wrap64 (DailyUsage c + sc'),
                          MonthlyUsage := wrap64 (MonthlyUsage c + sc'),
                          UpdatedAt := db_now e\<rparr>])
         else clients st)"
      using frame(1) by (cases "db_write_error e") (simp_all add: result db_Save_client_def Let_def)
    show "client_saves (snd (SendBulkSMS e x (Decoded req) (Some c) st)) =
        (if db_write_error e = None then Suc (client_saves st) else client_saves st)"
      using frame(3) by (cases "db_write_error e") (simp_all add: result db_Save_client_def Let_def)
    show "upstream_posts (snd (SendBulkSMS e x (Decoded req) (Some c) st)) =
        upstream_posts st @ [map (to_msgdata (Name c)) (Messages req)]"
      using frame(2) by (cases "db_write_error e") (simp_all add: result db_Save_client_def Let_def)
    show "\<forall>k<length (Messages req).
          log_Status (newlogs ! k) =
            (if Status outcome \<noteq> ''Success'' \<and> Status outcome \<noteq> ''success''
             then ''failed'' else ''sent'')
        \<and> Recipient (newlogs ! k) = FormatPhone (Number (Messages req ! k))
        \<and> ClientID (newlogs ! k) = ID c"
      by (rule each)
  qed
qed

lemma SendBulkSMS_Bulk_D:
  assumes "Data (snd (fst (SendBulkSMS e x (Decoded req) ctx st))) = Bulk n successful failed results"
  shows "\<exists>c. ctx = Some c \<and> Messages req \<noteq> [] \<and> list_all binding_ok (Messages req)
     \<and> list_all (\<lambda>msg. ValidatePhone (Number msg)) (Messages req)
     \<and> http_completed x
     \<and> \<not> wrap64 (DailyUsage c + int (length (Messages req))) > DailyLimit c"
proof -
  have v: "find (\<lambda>msg. \<not> ValidatePhone (Number msg)) (Messages req) = None \<Longrightarrow>
      list_all (\<lambda>msg. ValidatePhone (Number msg)) (Messages req)"
    by (simp add: find_None_iff list_all_iff)
  show ?thesis
    using assms v
    by (cases x; cases ctx)
       (auto simp add: SendBulkSMS_def ShouldBindJSON_BulkSMSRequest_def SendSMS_def Let_def
          split: if_splits option.splits prod.splits)
qed

lemma example_auth:
  "APIKeyAuth example_bcrypt example_env example_world ''key-1'' ''s3cret'' = Inr example_client"
  by (simp add: APIKeyAuth_def example_lookups example_bcrypt_def example_client_def)

lemma example_client_range:
  "is_int64 (DailyUsage example_client)" "is_int64 (DailyLimit example_client)"
  "is_int64 (MonthlyUsage example_client)" "is_int64 (MonthlyLimit example_client)"
  by (simp_all add: is_int64_def example_client_def)

lemma example_env_writable: "db_write_error example_env = None"
  by (simp add: example_env_def)

lemma example_batch:
  "Messages \<lparr>Messages = [example_message, example_message]\<rparr> \<noteq> []"
  "list_all binding_ok (Messages \<lparr>Messages = [example_message, example_message]\<rparr>)"
  "list_all (\<lambda>msg. ValidatePhone (Number msg))
     (Messages \<lparr>Messages = [example_message, example_message]\<rparr>)"
  "int (length (Messages \<lparr>Messages = [example_message, example_message]\<rparr>)) = 2"
  by (simp_all add: example_message_valid)

lemma example_client_facts:
  "example_client \<in> set (clients example_world)"
  "ID example_client = 7" "DailyUsage example_client = 8" "DailyLimit example_client = 10"
  "MonthlyUsage example_client = 19" "MonthlyLimit example_client = 20"
  "IsActive example_client" "example_bcrypt (APISecret example_client) ''s3cret''"
  by (simp_all add: example_world_def example_client_def example_bcrypt_def)

lemma exhausted_client_facts:
  "DailyUsage exhausted_client = 10" "MonthlyUsage exhausted_client = 25"
  "MonthlyLimit exhausted_client = 20"
  by (simp_all add: exhausted_client_def)

lemma sum_length_filter_int:
  "int (length (filter P xs)) + int (length (filter (\<lambda>x. \<not> P x) xs)) = int (length xs)"
  using sum_length_filter_compl[of P xs] by linarith

lemma filter_all_nth: "\<forall>k<length xs. P (xs ! k) \<Longrightarrow> filter P xs = xs"
  by (simp add: all_set_conv_all_nth)

lemma filter_none_nth: "\<forall>k<length xs. \<not> P (xs ! k) \<Longrightarrow> filter P xs = []"
  by (simp add: filter_empty_conv all_set_conv_all_nth)

lemma find_replaced_by_id:
  assumes "c \<in> set rows" and "ID c' = ID c" and "DeletedAt c' = None"
  shows "find (\<lambda>r. ID r = ID c \<and> DeletedAt r = None)
           (map (\<lambda>r. if ID r = ID c then c' else r) rows) = Some c'"
  using assms by (induction rows) auto

text \<open>Two runs of the bulk handler on the example data, evaluated.\<close>

lemma example_bulk_rejected:
  "SendBulkSMS example_env (Body_rejected ''<html>'')
     (Decoded \<lparr>Messages = [example_message, example_message]\<rparr>)
     (Some example_client) example_world =
   ((StatusOK,
     \<lparr>Success = True, resp_Message = ''Bulk SMS processing completed'',
      Data = Bulk 2 0 2 [(1, ''+256701234567'', ''failed''), (2, ''+256701234567'', ''failed'')],
      Error = []\<rparr>),
    \<lparr>clients = [example_client\<lparr>UpdatedAt := 101\<rparr>, exhausted_client],
     sms_logs =
       [\<lparr>log_ID = 1, log_CreatedAt = 101, ClientID = 7, Recipient = ''+256701234567'',
         log_Message = ''hello'', log_SenderID = [], log_Priority = ''1'',
         log_Status = ''failed'', ProviderStatus = ''Failed'', ProviderMessage = ''<html>'',
         log_Error = ''<html>'', IPAddress = ''192.0.2.1'', UserAgent = ''curl''\<rparr>,
        \<lparr>log_ID = 2, log_CreatedAt = 101, ClientID = 7, Recipient = ''+256701234567'',
         log_Message = ''hello'', log_SenderID = [], log_Priority = ''1'',
         log_Status = ''failed'', ProviderStatus = ''Failed'', ProviderMessage = ''<html>'',
         log_Error = ''<html>'', IPAddress = ''192.0.2.1'', UserAgent = ''curl''\<rparr>],
     uuids = 2,
     upstream_posts =
       [[\<lparr>md_number = ''+256701234567'', md_message = ''hello'', md_senderid = ''Acme'',
          md_priority = ''1''\<rparr>,
         \<lparr>md_number = ''+256701234567'', md_message = ''hello'', md_senderid = ''Acme'',
          md_priority = ''1''\<rparr>]],
     client_saves = 1\<rparr>)"
  by (simp add: SendBulkSMS_def ShouldBindJSON_BulkSMSRequest_def example_message_valid
        SendSMS_def to_msgdata_def response_at_def db_Create_log_def db_Save_client_def
        wrap64_def Let_def example_env_def example_world_def example_client_def
        exhausted_client_def)
     (simp add: example_message_def FormatPhone_def is_digit_def)

lemma example_bulk_sent:
  "SendBulkSMS example_env (Body_decoded \<lparr>Status = ''Success'', Message = ''queued''\<rparr>)
     (Decoded \<lparr>Messages = [example_message, example_message]\<rparr>)
     (Some example_client) example_world =
   ((StatusOK,
     \<lparr>Success = True, resp_Message = ''Bulk SMS processing completed'',
      Data = Bulk 2 2 0 [(1, ''+256701234567'', ''sent''), (2, ''+256701234567'', ''sent'')],
      Error = []\<rparr>),
    \<lparr>clients = [example_client\<lparr>DailyUsage := 10, MonthlyUsage := 21, UpdatedAt := 101\<rparr>,
                exhausted_client],
     sms_logs =
       [\<lparr>log_ID = 1, log_CreatedAt = 101, ClientID = 7, Recipient = ''+256701234567'',
         log_Message = ''hello'', log_SenderID = [], log_Priority = ''1'',
         log_Status = ''sent'', ProviderStatus = ''Success'',
         ProviderMessage = ''SMS sent successfully'', log_Error = [],
         IPAddress = ''192.0.2.1'', UserAgent = ''curl''\<rparr>,
        \<lparr>log_ID = 2, log_CreatedAt = 101, ClientID = 7, Recipient = ''+256701234567'',
         log_Message = ''hello'', log_SenderID = [], log_Priority = ''1'',
         log_Status = ''sent'', ProviderStatus = ''Success'',
         ProviderMessage = ''SMS sent successfully'', log_Error = [],
         IPAddress = ''192.0.2.1'', UserAgent = ''curl''\<rparr>],
     uuids = 2,
     upstream_posts =
       [[\<lparr>md_number = ''+256701234567'', md_message = ''hello'', md_senderid = ''Acme'',
          md_priority = ''1''\<rparr>,
         \<lparr>md_number = ''+256701234567'', md_message = ''hello'', md_senderid = ''Acme'',
          md_priority = ''1''\<rparr>]],
     client_saves = 1\<rparr>)"
  by (simp add: SendBulkSMS_def ShouldBindJSON_BulkSMSRequest_def example_message_valid
        SendSMS_def to_msgdata_def response_at_def db_Create_log_def db_Save_client_def
        wrap64_def Let_def example_env_def example_world_def example_client_def
        exhausted_client_def)
     (simp add: example_message_def FormatPhone_def is_digit_def)

section \<open>Authenticator: properties\<close>

text \<open>
  Claim C1, as the code has it. For a non-empty key and secret, the response to a
  known key whose secret does not verify and the response to an unknown key have the
  same status code (401), the same success flag, the same message and no data; their
  \<open>error\<close> fields differ: \<open>API secret mismatch\<close> against \<open>API key not found\<close>.
\<close>

theorem auth_failures_differ_in_error_text_only:
  assumes "apiKey \<noteq> []" and "apiSecret \<noteq> []" and "otherKey \<noteq> []" and "otherSecret \<noteq> []"
    and "db_First e st (\<lambda>c. APIKey c = apiKey) = Inr client"
    and "\<not> bcrypt_ok (APISecret client) apiSecret"
    and "db_First e' st' (\<lambda>c. APIKey c = otherKey) = Inl err"
  shows "APIKeyAuth bcrypt_ok e st apiKey apiSecret =
           Inl (StatusUnauthorized,
                \<lparr>Success = False, resp_Message = ''Invalid API credentials'', Data = No_data,
                 Error = ''API secret mismatch''\<rparr>)
       \<and> APIKeyAuth bcrypt_ok e' st' otherKey otherSecret =
           Inl (StatusUnauthorized,
                \<lparr>Success = False, resp_Message = ''Invalid API credentials'', Data = No_data,
                 Error = ''API key not found''\<rparr>)"
  using assms by (simp add: APIKeyAuth_def)

theorem auth_failures_differ_in_error_text_only_witness:
  "APIKeyAuth example_bcrypt example_env example_world ''key-1'' ''wrong'' =
     Inl (StatusUnauthorized,
          \<lparr>Success = False, resp_Message = ''Invalid API credentials'', Data = No_data,
           Error = ''API secret mismatch''\<rparr>)
   \<and> APIKeyAuth example_bcrypt example_env example_world ''key-2'' ''wrong'' =
     Inl (StatusUnauthorized,
          \<lparr>Success = False, resp_Message = ''Invalid API credentials'', Data = No_data,
           Error = ''API key not found''\<rparr>)"
proof -
  have mismatch: "\<not> example_bcrypt (APISecret example_client) ''wrong''"
    by (simp add: example_bcrypt_def example_client_def)
  show ?thesis
    using auth_failures_differ_in_error_text_only
      [where apiKey = "''key-1''" and apiSecret = "''wrong''" and otherKey = "''key-2''"
         and otherSecret = "''wrong''" and bcrypt_ok = example_bcrypt,
       OF _ _ _ _ example_lookups(1) mismatch example_lookups(2)]
    by simp
qed

text \<open>
  Claim C1 as stated fails: with the same secret presented, the body answered for the
  known key \<open>key-1\<close> is not the body answered for the unknown key \<open>key-2\<close>.
\<close>

theorem auth_failure_responses_distinguishable:
  "db_First example_env example_world (\<lambda>c. APIKey c = ''key-1'') = Inr example_client
   \<and> \<not> example_bcrypt (APISecret example_client) ''wrong''
   \<and> db_First example_env example_world (\<lambda>c. APIKey c = ''key-2'') = Inl ''record not found''
   \<and> APIKeyAuth example_bcrypt example_env example_world ''key-1'' ''wrong''
       \<noteq> APIKeyAuth example_bcrypt example_env example_world ''key-2'' ''wrong''"
  by (simp add: APIKeyAuth_def example_lookups example_bcrypt_def example_client_def)

section \<open>Administrative usage reset: properties\<close>

text \<open>
  Claim C10: for an existing client, whatever its counters, and a database that takes
  the write, the reset answers 200 and the client read back has \<open>DailyUsage = 0\<close>,
  \<open>MonthlyUsage = 0\<close> and \<open>LastReset\<close> at the reset instant, with its id, name, email,
  API key, stored secret hash, key hash, active flag, rate, daily and monthly limits,
  creation time and deletion mark unchanged. (\<open>UpdatedAt\<close> is restamped by \<open>Save\<close>.)
\<close>

theorem ResetClientUsage_zeroes_counters_only:
  assumes found: "db_First e st (\<lambda>c. ID c = clientID) = Inr client"
    and writable: "db_write_error e = None"
  shows "\<exists>client'.
           fst (ResetClientUsage e clientID st) =
             (StatusOK, \<lparr>Success = True, resp_Message = ''Client usage reset successfully'',
                         Data = No_data, Error = []\<rparr>)
         \<and> db_First e (snd (ResetClientUsage e clientID st)) (\<lambda>c. ID c = clientID) = Inr client'
         \<and> DailyUsage client' = 0 \<and> MonthlyUsage client' = 0 \<and> LastReset client' = now e
         \<and> ID client' = ID client \<and> Name client' = Name client \<and> Email client' = Email client
         \<and> APIKey client' = APIKey client \<and> APISecret client' = APISecret client
         \<and> APIKeyHash client' = APIKeyHash client \<and> IsActive client' = IsActive client
         \<and> RateLimit client' = RateLimit client \<and> DailyLimit client' = DailyLimit client
         \<and> MonthlyLimit client' = MonthlyLimit client \<and> CreatedAt client' = CreatedAt client
         \<and> DeletedAt client' = DeletedAt client"
proof -
  let ?c' = "client\<lparr>DailyUsage := 0, MonthlyUsage := 0, LastReset := now e, UpdatedAt := db_now e\<rparr>"
  from db_First_Inr [OF found]
  have r: "db_read_error e = None" and mem: "client \<in> set (clients st)"
    and idc: "ID client = clientID" and del: "DeletedAt client = None"
    and f: "find (\<lambda>c. ID c = clientID \<and> DeletedAt c = None) (clients st) = Some client"
    by auto
  have in_ids: "ID client \<in> ID ` set (clients st)"
    using mem by blast
  have st': "ResetClientUsage e clientID st =
      ((StatusOK, \<lparr>Success = True, resp_Message = ''Client usage reset successfully'',
                   Data = No_data, Error = []\<rparr>),
       st\<lparr>clients := map (\<lambda>r. if ID r = clientID then ?c' else r) (clients st),
          client_saves := Suc (client_saves st)\<rparr>)"
    using found writable in_ids idc
    by (simp add: ResetClientUsage_def db_Save_client_def Let_def)
  have look: "db_First e (snd (ResetClientUsage e clientID st)) (\<lambda>c. ID c = clientID) = Inr ?c'"
    using find_map_replace [OF f, of ?c'] idc del r
    by (simp add: st' db_First_def)
  show ?thesis
    by (rule exI [of _ ?c']) (simp add: look, simp add: st')
qed

theorem ResetClientUsage_zeroes_counters_only_witness:
  "db_First example_env example_world (\<lambda>c. ID c = 9) = Inr exhausted_client
   \<and> db_write_error example_env = None
   \<and> DailyUsage exhausted_client \<ge> DailyLimit exhausted_client
   \<and> MonthlyUsage exhausted_client > MonthlyLimit exhausted_client
   \<and> (\<exists>client'.
         fst (ResetClientUsage example_env 9 example_world) =
           (StatusOK, \<lparr>Success = True, resp_Message = ''Client usage reset successfully'',
                       Data = No_data, Error = []\<rparr>)
       \<and> db_First example_env (snd (ResetClientUsage example_env 9 example_world))
            (\<lambda>c. ID c = 9) = Inr client'
       \<and> DailyUsage client' = 0 \<and> MonthlyUsage client' = 0 \<and> LastReset client' = 100
       \<and> Name client' = ''Bulk Co'' \<and> APIKey client' = ''key-9''
       \<and> DailyLimit client' = 10 \<and> MonthlyLimit client' = 20)"
proof -
  have writable: "db_write_error example_env = None"
    by (simp add: example_env_def)
  have "now example_env = 100"
    by (simp add: example_env_def)
  then show ?thesis
    using ResetClientUsage_zeroes_counters_only [OF example_lookups(3) writable]
      example_lookups(3) writable
    by (auto simp add: exhausted_client_def)
qed

section \<open>Send orchestrator: single send\<close>

text \<open>
  Claim C2, as the code has it. For a single send that passed binding and validation,
  whose provider call returned outcomes, with a database that takes the write: there is
  one outcome, one log entry is appended, and the entry is \<open>failed\<close> exactly when the
  outcome's status is neither \<open>Success\<close> nor \<open>success\<close> (these two spellings, compared
  byte for byte), \<open>sent\<close> otherwise; a failed entry records the provider's status and
  message.
\<close>

theorem single_send_failed_unless_Success_or_success:
  assumes bound: "binding_ok req" and valid: "ValidatePhone (Number req)"
    and writable: "db_write_error e = None"
    and sent: "SendSMS x [req] (Name c) st = (Inr responses, st1)"
  shows "\<exists>outcome entry. responses = [outcome]
         \<and> sms_logs (snd (SendSingleSMS e x (Decoded req) (Some c) st)) = sms_logs st @ [entry]
         \<and> (log_Status entry = ''failed'' \<longleftrightarrow>
              Status outcome \<noteq> ''Success'' \<and> Status outcome \<noteq> ''success'')
         \<and> (log_Status entry = ''sent'' \<longleftrightarrow>
              Status outcome = ''Success'' \<or> Status outcome = ''success'')
         \<and> (log_Status entry = ''failed'' \<longrightarrow>
               ProviderStatus entry = Status outcome \<and> ProviderMessage entry = Message outcome
               \<and> log_Error entry = Message outcome)"
proof -
  from SendSMS_Inr [OF sent] obtain r where rs: "responses = [r]"
    and st1: "st1 = st\<lparr>upstream_posts := upstream_posts st @ [map (to_msgdata (Name c)) [req]]\<rparr>"
    by auto
  show ?thesis
  proof (cases "Status r \<noteq> ''Success'' \<and> Status r \<noteq> ''success''")
    case True
    then show ?thesis
      using bound valid writable sent rs
      by (simp add: SendSingleSMS_def ShouldBindJSON_SMSRequest_def db_Create_log_def st1 Let_def)
  next
    case False
    then show ?thesis
      using bound valid writable sent rs
      by (auto simp add: SendSingleSMS_def ShouldBindJSON_SMSRequest_def db_Create_log_def
            db_Save_client_def st1 Let_def)
  qed
qed

theorem single_send_failed_unless_Success_or_success_witness:
  "\<exists>entry.
     sms_logs (snd (SendSingleSMS example_env
        (Body_decoded \<lparr>Status = ''Failed'', Message = ''invalid number''\<rparr>)
        (Decoded example_message) (Some example_client) example_world)) = [entry]
     \<and> log_Status entry = ''failed'' \<and> ProviderStatus entry = ''Failed''
     \<and> ProviderMessage entry = ''invalid number''"
proof -
  have writable: "db_write_error example_env = None"
    by (simp add: example_env_def)
  have sent: "SendSMS (Body_decoded \<lparr>Status = ''Failed'', Message = ''invalid number''\<rparr>)
      [example_message] (Name example_client) example_world =
        (Inr [\<lparr>Status = ''Failed'', Message = ''invalid number''\<rparr>],
         example_world\<lparr>upstream_posts := upstream_posts example_world @
            [map (to_msgdata (Name example_client)) [example_message]]\<rparr>)"
    by (simp add: SendSMS_def)
  have empty: "sms_logs example_world = []"
    by (simp add: example_world_def)
  show ?thesis
    using single_send_failed_unless_Success_or_success
      [OF example_message_valid(2) example_message_valid(1) writable sent]
    by (auto simp add: empty)
qed

text \<open>
  Claim C2 as stated fails: \<open>SUCCESS\<close> is a case-insensitive match of \<open>success\<close>, and
  a single send whose provider answers with that status is logged as \<open>failed\<close>.
\<close>

theorem single_send_uppercase_SUCCESS_marked_failed:
  "EqualFold ''SUCCESS'' ''success''
   \<and> map log_Status (sms_logs (snd (SendSingleSMS example_env
        (Body_decoded \<lparr>Status = ''SUCCESS'', Message = ''ok''\<rparr>)
        (Decoded example_message) (Some example_client) example_world))) = [''failed'']"
  by (simp add: EqualFold_def ascii_lower_def SendSingleSMS_def ShouldBindJSON_SMSRequest_def
        example_message_valid SendSMS_def db_Create_log_def example_env_def example_world_def
        Let_def)

text \<open>
  Claim C5: a single send that passed authentication, binding and validation, with a
  database that takes writes and counters and limits that are Go ints. Exactly one log
  entry is appended, \<open>sent\<close> or \<open>failed\<close>; it is \<open>sent\<close> exactly when the body decoded
  into an outcome with status \<open>Success\<close> or \<open>success\<close> (so never on a transport error
  and never on another outcome). When it is \<open>sent\<close>, the client's row is saved once
  with both counters one higher; otherwise the client table is untouched and nothing
  is saved.
\<close>

theorem single_send_counts_iff_sent:
  assumes auth: "APIKeyAuth bcrypt_ok e st apiKey apiSecret = Inr c"
    and bound: "binding_ok req" and valid: "ValidatePhone (Number req)"
    and writable: "db_write_error e = None"
    and range: "is_int64 (DailyUsage c)" "is_int64 (DailyLimit c)"
               "is_int64 (MonthlyUsage c)" "is_int64 (MonthlyLimit c)"
  shows "\<exists>entry.
           sms_logs (snd (POST_sms_send bcrypt_ok e x apiKey apiSecret (Decoded req) st)) =
             sms_logs st @ [entry]
         \<and> (log_Status entry = ''sent'' \<or> log_Status entry = ''failed'')
         \<and> (log_Status entry = ''sent'' \<longleftrightarrow>
              (\<exists>outcome. x = Body_decoded outcome
                 \<and> (Status outcome = ''Success'' \<or> Status outcome = ''success'')))
         \<and> (log_Status entry = ''sent'' \<longrightarrow>
               clients (snd (POST_sms_send bcrypt_ok e x apiKey apiSecret (Decoded req) st)) =
                 map (\<lambda>r. if ID r = ID c
                          then c\<lparr>DailyUsage := DailyUsage c + 1,
                                 MonthlyUsage := MonthlyUsage c + 1,
                                 UpdatedAt := db_now e\<rparr>
                          else r) (clients st)
             \<and> client_saves (snd (POST_sms_send bcrypt_ok e x apiKey apiSecret (Decoded req) st)) =
                 client_saves st + 1)
         \<and> (log_Status entry \<noteq> ''sent'' \<longrightarrow>
               clients (snd (POST_sms_send bcrypt_ok e x apiKey apiSecret (Decoded req) st)) =
                 clients st
             \<and> client_saves (snd (POST_sms_send bcrypt_ok e x apiKey apiSecret (Decoded req) st)) =
                 client_saves st)"
proof -
  from APIKeyAuth_Inr [OF auth] have mem: "c \<in> set (clients st)"
    and d: "DailyUsage c < DailyLimit c" and m: "MonthlyUsage c < MonthlyLimit c"
    by auto
  have in_ids: "ID c \<in> ID ` set (clients st)"
    using mem by blast
  have wd: "wrap64 (DailyUsage c + 1) = DailyUsage c + 1"
    using d range by (intro wrap64_id) (simp add: is_int64_def)
  have wm: "wrap64 (MonthlyUsage c + 1) = MonthlyUsage c + 1"
    using m range by (intro wrap64_id) (simp add: is_int64_def)
  have route: "POST_sms_send bcrypt_ok e x apiKey apiSecret (Decoded req) st =
      SendSingleSMS e x (Decoded req) (Some c) st"
    by (simp add: POST_sms_send_def auth)
  show ?thesis
    unfolding route
    using bound valid writable in_ids
    by (cases x)
       (auto simp add: SendSingleSMS_def ShouldBindJSON_SMSRequest_def db_Create_log_def
          db_Save_client_def SendSMS_def Let_def wd wm)
qed

theorem single_send_counts_iff_sent_witness:
  "\<exists>entry.
     sms_logs (snd (POST_sms_send example_bcrypt example_env
        (Body_decoded \<lparr>Status = ''Success'', Message = ''queued''\<rparr>) ''key-1'' ''s3cret''
        (Decoded example_message) example_world)) = [entry]
   \<and> log_Status entry = ''sent''
   \<and> map DailyUsage (clients (snd (POST_sms_send example_bcrypt example_env
        (Body_decoded \<lparr>Status = ''Success'', Message = ''queued''\<rparr>) ''key-1'' ''s3cret''
        (Decoded example_message) example_world))) = [9, 10]
   \<and> map MonthlyUsage (clients (snd (POST_sms_send example_bcrypt example_env
        (Body_decoded \<lparr>Status = ''Success'', Message = ''queued''\<rparr>) ''key-1'' ''s3cret''
        (Decoded example_message) example_world))) = [20, 25]
   \<and> client_saves (snd (POST_sms_send example_bcrypt example_env
        (Body_decoded \<lparr>Status = ''Success'', Message = ''queued''\<rparr>) ''key-1'' ''s3cret''
        (Decoded example_message) example_world)) = 1"
proof -
  have w: "clients example_world = [example_client, exhausted_client]" "sms_logs example_world = []"
      "client_saves example_world = 0"
    by (simp_all add: example_world_def)
  have ids: "ID example_client = 7" "ID exhausted_client = 9" "DailyUsage example_client = 8"
     "MonthlyUsage example_client = 19" "DailyUsage exhausted_client = 10" "MonthlyUsage exhausted_client = 25"
    by (simp_all add: example_client_def exhausted_client_def)
  show ?thesis
    using single_send_counts_iff_sent
      [OF example_auth example_message_valid(2) example_message_valid(1) example_env_writable
          example_client_range,
       of "Body_decoded \<lparr>Status = ''Success'', Message = ''queued''\<rparr>"]
    by (auto simp add: w ids)
qed

section \<open>Send orchestrator: bulk send\<close>

text \<open>
  Claim C4, as the code has it. A bulk request of validated messages from a client for
  whom \<open>dailyUsage + N\<close>, as Go's 64-bit addition computes it (wrapping around on
  overflow), exceeds \<open>dailyLimit\<close> is answered 429 and leaves the whole state as it was:
  no request is posted to the provider, no log entry is created, no counter changes.
  In particular a 3-message bulk at \<open>dailyUsage = dailyLimit - 2\<close> is rejected so
  whenever \<open>dailyLimit + 1\<close> is a Go int.
\<close>

theorem bulk_over_daily_quota_rejected:
  assumes nonempty: "Messages req \<noteq> []" and bound: "list_all binding_ok (Messages req)"
    and valid: "list_all (\<lambda>msg. ValidatePhone (Number msg)) (Messages req)"
  shows "(wrap64 (DailyUsage c + int (length (Messages req))) > DailyLimit c \<longrightarrow>
           SendBulkSMS e x (Decoded req) (Some c) st =
             ((StatusTooManyRequests,
               \<lparr>Success = False, resp_Message = ''Bulk request would exceed daily limit'',
                Data = No_data, Error = ''Requested messages exceed available daily quota''\<rparr>),
              st))
       \<and> (length (Messages req) = 3 \<and> DailyUsage c = DailyLimit c - 2
             \<and> is_int64 (DailyLimit c + 1) \<longrightarrow>
           SendBulkSMS e x (Decoded req) (Some c) st =
             ((StatusTooManyRequests,
               \<lparr>Success = False, resp_Message = ''Bulk request would exceed daily limit'',
                Data = No_data, Error = ''Requested messages exceed available daily quota''\<rparr>),
              st))"
proof -
  have nf: "find (\<lambda>msg. \<not> ValidatePhone (Number msg)) (Messages req) = None"
    using valid by (simp add: find_None_iff list_all_iff)
  have general: "SendBulkSMS e x (Decoded req) (Some c) st =
             ((StatusTooManyRequests,
               \<lparr>Success = False, resp_Message = ''Bulk request would exceed daily limit'',
                Data = No_data, Error = ''Requested messages exceed available daily quota''\<rparr>),
              st)"
    if "wrap64 (DailyUsage c + int (length (Messages req))) > DailyLimit c"
    using that nonempty bound
    by (simp add: SendBulkSMS_def ShouldBindJSON_BulkSMSRequest_def nf)
  have particular: "wrap64 (DailyUsage c + int (length (Messages req))) > DailyLimit c"
    if "length (Messages req) = 3" and "DailyUsage c = DailyLimit c - 2"
      and "is_int64 (DailyLimit c + 1)"
  proof -
    have "DailyUsage c + int (length (Messages req)) = DailyLimit c + 1"
      using that(1,2) by simp
    then show ?thesis
      using that(3) by (simp add: wrap64_id)
  qed
  show ?thesis
    using general particular by blast
qed

theorem bulk_over_daily_quota_rejected_witness:
  "DailyUsage example_client = DailyLimit example_client - 2
   \<and> SendBulkSMS example_env (Body_decoded \<lparr>Status = ''Success'', Message = ''ok''\<rparr>)
       (Decoded \<lparr>Messages = [example_message, example_message, example_message]\<rparr>)
       (Some example_client) example_world =
         ((StatusTooManyRequests,
           \<lparr>Success = False, resp_Message = ''Bulk request would exceed daily limit'',
            Data = No_data, Error = ''Requested messages exceed available daily quota''\<rparr>),
          example_world)"
  using bulk_over_daily_quota_rejected
    [where req = "\<lparr>Messages = [example_message, example_message, example_message]\<rparr>"
       and c = example_client and e = example_env and st = example_world
       and x = "Body_decoded \<lparr>Status = ''Success'', Message = ''ok''\<rparr>"]
  by (simp add: example_message_valid is_int64_def example_client_def)

text \<open>
  Claim C4 as stated fails when the sum leaves the range of Go's int: with
  \<open>dailyUsage = 2^63 - 2\<close>, \<open>dailyLimit = 2^63 - 1\<close> and two messages,
  \<open>dailyUsage + N\<close> exceeds \<open>dailyLimit\<close>, yet the request passes the authenticator, the
  wrapped sum is negative, the batch is posted to the provider, two log entries are
  created and the answer is 200.
\<close>

theorem bulk_accepted_when_daily_sum_overflows:
  "is_int64 (DailyUsage brim_client) \<and> is_int64 (DailyLimit brim_client)
   \<and> DailyUsage brim_client + int (length [example_message, example_message])
        > DailyLimit brim_client
   \<and> APIKeyAuth example_bcrypt example_env brim_world ''key-11'' ''s3cret'' = Inr brim_client
   \<and> fst (POST_sms_send_bulk example_bcrypt example_env
        (Body_decoded \<lparr>Status = ''Success'', Message = ''queued''\<rparr>) ''key-11'' ''s3cret''
        (Decoded \<lparr>Messages = [example_message, example_message]\<rparr>) brim_world) =
       (StatusOK,
        \<lparr>Success = True, resp_Message = ''Bulk SMS processing completed'',
         Data = Bulk 2 2 0 [(1, ''+256701234567'', ''sent''), (2, ''+256701234567'', ''sent'')],
         Error = []\<rparr>)
   \<and> length (upstream_posts (snd (POST_sms_send_bulk example_bcrypt example_env
        (Body_decoded \<lparr>Status = ''Success'', Message = ''queued''\<rparr>) ''key-11'' ''s3cret''
        (Decoded \<lparr>Messages = [example_message, example_message]\<rparr>) brim_world))) = 1
   \<and> map log_Status (sms_logs (snd (POST_sms_send_bulk example_bcrypt example_env
        (Body_decoded \<lparr>Status = ''Success'', Message = ''queued''\<rparr>) ''key-11'' ''s3cret''
        (Decoded \<lparr>Messages = [example_message, example_message]\<rparr>) brim_world))) =
       [''sent'', ''sent'']"
proof -
  have auth: "APIKeyAuth example_bcrypt example_env brim_world ''key-11'' ''s3cret'' =
      Inr brim_client"
    by (simp add: APIKeyAuth_def db_First_def example_env_def brim_world_def brim_client_def
          example_bcrypt_def)
  have run: "SendBulkSMS example_env
        (Body_decoded \<lparr>Status = ''Success'', Message = ''queued''\<rparr>)
        (Decoded \<lparr>Messages = [example_message, example_message]\<rparr>) (Some brim_client)
        brim_world =
      ((StatusOK,
        \<lparr>Success = True, resp_Message = ''Bulk SMS processing completed'',
         Data = Bulk 2 2 0 [(1, ''+256701234567'', ''sent''), (2, ''+256701234567'', ''sent'')],
         Error = []\<rparr>),
       \<lparr>clients = [brim_client\<lparr>DailyUsage := - 9223372036854775808, MonthlyUsage := 2,
                     UpdatedAt := 101\<rparr>],
        sms_logs =
          [\<lparr>log_ID = 1, log_CreatedAt = 101, ClientID = 11, Recipient = ''+256701234567'',
            log_Message = ''hello'', log_SenderID = [], log_Priority = ''1'',
            log_Status = ''sent'', ProviderStatus = ''Success'',
            ProviderMessage = ''SMS sent successfully'', log_Error = [],
            IPAddress = ''192.0.2.1'', UserAgent = ''curl''\<rparr>,
           \<lparr>log_ID = 2, log_CreatedAt = 101, ClientID = 11, Recipient = ''+256701234567'',
            log_Message = ''hello'', log_SenderID = [], log_Priority = ''1'',
            log_Status = ''sent'', ProviderStatus = ''Success'',
            ProviderMessage = ''SMS sent successfully'', log_Error = [],
            IPAddress = ''192.0.2.1'', UserAgent = ''curl''\<rparr>],
        uuids = 2,
        upstream_posts =
          [[\<lparr>md_number = ''+256701234567'', md_message = ''hello'', md_senderid = ''Brim'',
             md_priority = ''1''\<rparr>,
            \<lparr>md_number = ''+256701234567'', md_message = ''hello'', md_senderid = ''Brim'',
             md_priority = ''1''\<rparr>]],
        client_saves = 1\<rparr>)"
    by (simp add: SendBulkSMS_def ShouldBindJSON_BulkSMSRequest_def example_message_valid
          SendSMS_def to_msgdata_def response_at_def db_Create_log_def db_Save_client_def
          wrap64_def Let_def example_env_def brim_world_def brim_client_def)
       (simp add: example_message_def FormatPhone_def is_digit_def)
  have range: "is_int64 (DailyUsage brim_client)" "is_int64 (DailyLimit brim_client)"
      "DailyUsage brim_client + int (length [example_message, example_message])
        > DailyLimit brim_client"
    by (simp_all add: is_int64_def brim_client_def)
  show ?thesis
    using range by (simp add: auth POST_sms_send_bulk_def run)
qed

text \<open>
  Claim C6: a bulk request of N validated messages that passes the pre-check, from a
  client that is a row of the table, with an upstream exchange that returned a body, a
  database that takes writes and counters that stay within Go's int. The answer is 200
  with \<open>total = N\<close> and \<open>successful + failed = N\<close>; exactly N log entries are appended,
  one per message in order (its normalized recipient, the client's id, \<open>sent\<close> or
  \<open>failed\<close>); the per-message results are those of the entries; both counters grow by
  the number of entries marked \<open>sent\<close>; and the client's row is saved once.
\<close>

theorem bulk_send_accounting:
  assumes nonempty: "Messages req \<noteq> []" and bound: "list_all binding_ok (Messages req)"
    and valid: "list_all (\<lambda>msg. ValidatePhone (Number msg)) (Messages req)"
    and mem: "c \<in> set (clients st)"
    and writable: "db_write_error e = None"
    and completed: "http_completed x"
    and precheck: "DailyUsage c + int (length (Messages req)) \<le> DailyLimit c"
    and range: "is_int64 (DailyUsage c)" "is_int64 (DailyLimit c)" "is_int64 (MonthlyUsage c)"
               "is_int64 (int (length (Messages req)))"
               "is_int64 (MonthlyUsage c + int (length (Messages req)))"
  shows "\<exists>newlogs successful failed results.
      fst (SendBulkSMS e x (Decoded req) (Some c) st) =
        (StatusOK,
         \<lparr>Success = True, resp_Message = ''Bulk SMS processing completed'',
          Data = Bulk (int (length (Messages req))) successful failed results, Error = []\<rparr>)
    \<and> sms_logs (snd (SendBulkSMS e x (Decoded req) (Some c) st)) = sms_logs st @ newlogs
    \<and> length newlogs = length (Messages req)
    \<and> (\<forall>k<length (Messages req).
          Recipient (newlogs ! k) = FormatPhone (Number (Messages req ! k))
        \<and> ClientID (newlogs ! k) = ID c
        \<and> (log_Status (newlogs ! k) = ''sent'' \<or> log_Status (newlogs ! k) = ''failed''))
    \<and> successful = int (length (filter (\<lambda>l. log_Status l = ''sent'') newlogs))
    \<and> successful + failed = int (length (Messages req))
    \<and> results = map (\<lambda>l. (log_ID l, Recipient l, log_Status l)) newlogs
    \<and> clients (snd (SendBulkSMS e x (Decoded req) (Some c) st)) =
        map (\<lambda>r. if ID r = ID c
                 then c\<lparr>DailyUsage := DailyUsage c + successful,
                        MonthlyUsage := MonthlyUsage c + successful,
                        UpdatedAt := db_now e\<rparr>
                 else r) (clients st)
    \<and> client_saves (snd (SendBulkSMS e x (Decoded req) (Some c) st)) = client_saves st + 1"
proof -
  let ?N = "int (length (Messages req))"
  have pre: "\<not> wrap64 (DailyUsage c + ?N) > DailyLimit c"
  proof -
    have "is_int64 (DailyUsage c + ?N)"
      using range precheck by (simp add: is_int64_def)
    then show ?thesis using precheck by (simp add: wrap64_id)
  qed
  from nonempty bound valid completed pre range(4) show ?thesis
  proof (cases rule: SendBulkSMS_accepted[where e = e and st = st])
    case (accepted outcome newlogs s)
    have sle: "0 \<le> s" "s \<le> ?N"
      using accepted(2,4) length_filter_le[of "\<lambda>l. log_Status l = ''sent''" newlogs] by simp_all
    have wd: "wrap64 (DailyUsage c + s) = DailyUsage c + s"
      using sle precheck range by (intro wrap64_id) (simp add: is_int64_def)
    have wm: "wrap64 (MonthlyUsage c + s) = MonthlyUsage c + s"
      using sle range by (intro wrap64_id) (simp add: is_int64_def)
    have in_ids: "ID c \<in> ID ` set (clients st)" using mem by blast
    show ?thesis
    proof (intro exI conjI)
      show "fst (SendBulkSMS e x (Decoded req) (Some c) st) =
          (StatusOK,
           \<lparr>Success = True, resp_Message = ''Bulk SMS processing completed'',
            Data = Bulk ?N s (int (length (filter (\<lambda>l. log_Status l \<noteq> ''sent'') newlogs)))
                     (map (\<lambda>l. (log_ID l, Recipient l, log_Status l)) newlogs),
            Error = []\<rparr>)"
        by (rule accepted(3))
      show "sms_logs (snd (SendBulkSMS e x (Decoded req) (Some c) st)) = sms_logs st @ newlogs"
        using accepted(5) writable by simp
      show "length newlogs = length (Messages req)" by (rule accepted(4))
      show "\<forall>k<length (Messages req).
            Recipient (newlogs ! k) = FormatPhone (Number (Messages req ! k))
          \<and> ClientID (newlogs ! k) = ID c
          \<and> (log_Status (newlogs ! k) = ''sent'' \<or> log_Status (newlogs ! k) = ''failed'')"
        using accepted(9) by simp
      show "s = int (length (filter (\<lambda>l. log_Status l = ''sent'') newlogs))" by (rule accepted(2))
      show "s + int (length (filter (\<lambda>l. log_Status l \<noteq> ''sent'') newlogs)) = ?N"
        using sum_length_filter_int[of "\<lambda>l. log_Status l = ''sent''" newlogs] accepted(2,4) by simp
      show "map (\<lambda>l. (log_ID l, Recipient l, log_Status l)) newlogs =
            map (\<lambda>l. (log_ID l, Recipient l, log_Status l)) newlogs" by (rule refl)
      show "clients (snd (SendBulkSMS e x (Decoded req) (Some c) st)) =
          map (\<lambda>r. if ID r = ID c
                   then c\<lparr>DailyUsage := DailyUsage c + s, MonthlyUsage := MonthlyUsage c + s,
                          UpdatedAt := db_now e\<rparr>
                   else r) (clients st)"
        using accepted(6) writable in_ids by (simp add: wd wm)
      show "client_saves (snd (SendBulkSMS e x (Decoded req) (Some c) st)) = client_saves st + 1"
        using accepted(7) writable by simp
    qed
  qed
qed

theorem bulk_send_accounting_witness:
  "fst (SendBulkSMS example_env (Body_rejected ''<html>'')
          (Decoded \<lparr>Messages = [example_message, example_message]\<rparr>)
          (Some example_client) example_world) =
     (StatusOK,
      \<lparr>Success = True, resp_Message = ''Bulk SMS processing completed'',
       Data = Bulk 2 0 2 [(1, ''+256701234567'', ''failed''), (2, ''+256701234567'', ''failed'')],
       Error = []\<rparr>)
   \<and> map log_Status (sms_logs (snd (SendBulkSMS example_env (Body_rejected ''<html>'')
          (Decoded \<lparr>Messages = [example_message, example_message]\<rparr>)
          (Some example_client) example_world))) = [''failed'', ''failed'']
   \<and> map DailyUsage (clients (snd (SendBulkSMS example_env (Body_rejected ''<html>'')
          (Decoded \<lparr>Messages = [example_message, example_message]\<rparr>)
          (Some example_client) example_world))) = [8, 10]
   \<and> map MonthlyUsage (clients (snd (SendBulkSMS example_env (Body_rejected ''<html>'')
          (Decoded \<lparr>Messages = [example_message, example_message]\<rparr>)
          (Some example_client) example_world))) = [19, 25]
   \<and> client_saves (snd (SendBulkSMS example_env (Body_rejected ''<html>'')
          (Decoded \<lparr>Messages = [example_message, example_message]\<rparr>)
          (Some example_client) example_world)) = 1"
proof -
  have completed: "http_completed (Body_rejected ''<html>'')"
    by simp
  have precheck: "DailyUsage example_client
      + int (length (Messages \<lparr>Messages = [example_message, example_message]\<rparr>))
      \<le> DailyLimit example_client"
    by (simp add: example_client_facts)
  have range: "is_int64 (DailyUsage example_client)" "is_int64 (DailyLimit example_client)"
      "is_int64 (MonthlyUsage example_client)"
      "is_int64 (int (length (Messages \<lparr>Messages = [example_message, example_message]\<rparr>)))"
      "is_int64 (MonthlyUsage example_client
         + int (length (Messages \<lparr>Messages = [example_message, example_message]\<rparr>)))"
    by (simp_all add: is_int64_def example_client_facts)
  from bulk_send_accounting
    [OF example_batch(1) example_batch(2) example_batch(3) example_client_facts(1)
        example_env_writable completed precheck range]
  show ?thesis
    by (simp add: example_bulk_rejected example_client_facts exhausted_client_facts)
qed

text \<open>
  Claim C7: whenever the bulk handler answers with bulk data for a list of messages
  (whose length is a Go int), the delivery client returned exactly one outcome, every
  per-message result carries the status derived from that outcome, and either all N
  messages count as successful or all N count as failed.
\<close>

theorem bulk_send_all_or_nothing:
  assumes bulk: "Data (snd (fst (SendBulkSMS e x (Decoded req) ctx st))) =
                   Bulk n successful failed results"
    and len64: "is_int64 (int (length (Messages req)))"
  shows "\<exists>c outcome. ctx = Some c
     \<and> fst (SendSMS x (Messages req) (Name c) st) = Inr [outcome]
     \<and> n = int (length (Messages req)) \<and> length results = length (Messages req)
     \<and> (\<forall>k<length (Messages req).
           snd (snd (results ! k)) =
             (if Status outcome \<noteq> ''Success'' \<and> Status outcome \<noteq> ''success''
              then ''failed'' else ''sent''))
     \<and> (successful = n \<and> failed = 0 \<or> successful = 0 \<and> failed = n)"
proof -
  from SendBulkSMS_Bulk_D[OF bulk] obtain c where ctx: "ctx = Some c"
    and nonempty: "Messages req \<noteq> []" and bound: "list_all binding_ok (Messages req)"
    and valid: "list_all (\<lambda>msg. ValidatePhone (Number msg)) (Messages req)"
    and completed: "http_completed x"
    and pre: "\<not> wrap64 (DailyUsage c + int (length (Messages req))) > DailyLimit c"
    by blast
  from nonempty bound valid completed pre len64 show ?thesis
  proof (cases rule: SendBulkSMS_accepted[where e = e and st = st])
    case (accepted outcome newlogs s)
    define rejected where
      "rejected = (Status outcome \<noteq> ''Success'' \<and> Status outcome \<noteq> ''success'')"
    from bulk accepted(3) have n: "n = int (length (Messages req))"
      and s: "successful = s"
      and f: "failed = int (length (filter (\<lambda>l. log_Status l \<noteq> ''sent'') newlogs))"
      and r: "results = map (\<lambda>l. (log_ID l, Recipient l, log_Status l)) newlogs"
      by (simp_all add: ctx)
    have stat: "\<forall>k<length newlogs. log_Status (newlogs ! k) = (if rejected then ''failed'' else ''sent'')"
      using accepted(9) accepted(4) by (simp add: rejected_def)
    have counts: "successful = n \<and> failed = 0 \<or> successful = 0 \<and> failed = n"
    proof (cases rejected)
      case True
      then have "\<forall>k<length newlogs. log_Status (newlogs ! k) \<noteq> ''sent''"
        using stat by simp
      then have "filter (\<lambda>l. log_Status l \<noteq> ''sent'') newlogs = newlogs"
        and "filter (\<lambda>l. log_Status l = ''sent'') newlogs = []"
        by (simp_all add: filter_all_nth filter_none_nth)
      then show ?thesis using s f n accepted(2) accepted(4) by simp
    next
      case False
      then have "\<forall>k<length newlogs. log_Status (newlogs ! k) = ''sent''"
        using stat by simp
      then have "filter (\<lambda>l. log_Status l = ''sent'') newlogs = newlogs"
        and "filter (\<lambda>l. log_Status l \<noteq> ''sent'') newlogs = []"
        by (simp_all add: filter_all_nth filter_none_nth)
      then show ?thesis using s f n accepted(2) accepted(4) by simp
    qed
    show ?thesis
    proof (intro exI conjI)
      show "ctx = Some c" by (rule ctx)
      show "fst (SendSMS x (Messages req) (Name c) st) = Inr [outcome]"
        by (simp add: accepted(1))
      show "n = int (length (Messages req))" by (rule n)
      show "length results = length (Messages req)" using r accepted(4) by simp
      show "\<forall>k<length (Messages req).
           snd (snd (results ! k)) =
             (if Status outcome \<noteq> ''Success'' \<and> Status outcome \<noteq> ''success''
              then ''failed'' else ''sent'')"
        using accepted(9) accepted(4) by (simp add: r)
      show "successful = n \<and> failed = 0 \<or> successful = 0 \<and> failed = n" by (rule counts)
    qed
  qed
qed

theorem bulk_send_all_or_nothing_witness:
  "Data (snd (fst (SendBulkSMS example_env (Body_rejected ''<html>'')
       (Decoded \<lparr>Messages = [example_message, example_message]\<rparr>)
       (Some example_client) example_world))) =
     Bulk 2 0 2 [(1, ''+256701234567'', ''failed''), (2, ''+256701234567'', ''failed'')]
   \<and> fst (SendSMS (Body_rejected ''<html>'')
       [example_message, example_message] (Name example_client) example_world) =
     Inr [\<lparr>Status = ''Failed'', Message = ''<html>''\<rparr>]"
proof -
  have data: "Data (snd (fst (SendBulkSMS example_env (Body_rejected ''<html>'')
       (Decoded \<lparr>Messages = [example_message, example_message]\<rparr>)
       (Some example_client) example_world))) =
     Bulk 2 0 2 [(1, ''+256701234567'', ''failed''), (2, ''+256701234567'', ''failed'')]"
    by (simp add: example_bulk_rejected)
  have len64: "is_int64 (int (length (Messages \<lparr>Messages = [example_message, example_message]\<rparr>)))"
    by (simp add: is_int64_def)
  from bulk_send_all_or_nothing [OF data len64]
  show ?thesis
    by (simp add: data SendSMS_def)
qed

text \<open>
  Claim C8: the monthly quota is consulted by the authenticator only
  (\<open>monthlyUsage < monthlyLimit\<close>), the bulk pre-check only looks at the daily quota.
  A bulk request of N validated messages with the right credentials, from an active
  client with \<open>monthlyUsage < monthlyLimit\<close> and \<open>dailyUsage + N \<le> dailyLimit\<close>, is
  accepted whatever \<open>monthlyUsage + N\<close> is; when the provider answers \<open>Success\<close> all N
  messages are \<open>sent\<close>, the stored \<open>monthlyUsage\<close> is \<open>monthlyUsage + N\<close>, which exceeds
  the monthly limit by at most \<open>N - 1\<close>, and does exceed it when
  \<open>monthlyUsage + N > monthlyLimit\<close>.
\<close>

theorem bulk_precheck_ignores_monthly_quota:
  assumes creds: "apiKey \<noteq> []" "apiSecret \<noteq> []"
    and found: "db_First e st (\<lambda>c. APIKey c = apiKey) = Inr c"
    and secret: "bcrypt_ok (APISecret c) apiSecret"
    and active: "IsActive c"
    and monthly: "MonthlyUsage c < MonthlyLimit c"
    and daily: "DailyUsage c + int (length (Messages req)) \<le> DailyLimit c"
    and nonempty: "Messages req \<noteq> []" and bound: "list_all binding_ok (Messages req)"
    and valid: "list_all (\<lambda>msg. ValidatePhone (Number msg)) (Messages req)"
    and writable: "db_write_error e = None"
    and all_sent: "Status outcome = ''Success'' \<or> Status outcome = ''success''"
    and range: "is_int64 (DailyUsage c)" "is_int64 (DailyLimit c)" "is_int64 (MonthlyUsage c)"
               "is_int64 (int (length (Messages req)))"
               "is_int64 (MonthlyUsage c + int (length (Messages req)))"
  shows "\<exists>results c'.
      fst (POST_sms_send_bulk bcrypt_ok e (Body_decoded outcome) apiKey apiSecret (Decoded req) st) =
        (StatusOK,
         \<lparr>Success = True, resp_Message = ''Bulk SMS processing completed'',
          Data = Bulk (int (length (Messages req))) (int (length (Messages req))) 0 results,
          Error = []\<rparr>)
    \<and> db_First e (snd (POST_sms_send_bulk bcrypt_ok e (Body_decoded outcome) apiKey apiSecret
                         (Decoded req) st)) (\<lambda>r. ID r = ID c) = Inr c'
    \<and> MonthlyLimit c' = MonthlyLimit c
    \<and> MonthlyUsage c' = MonthlyUsage c + int (length (Messages req))
    \<and> MonthlyUsage c' - MonthlyLimit c' \<le> int (length (Messages req)) - 1
    \<and> (MonthlyUsage c + int (length (Messages req)) > MonthlyLimit c \<longrightarrow>
         MonthlyUsage c' > MonthlyLimit c')"
proof -
  let ?N = "int (length (Messages req))"
  let ?x = "Body_decoded outcome"
  from db_First_Inr[OF found] have rd: "db_read_error e = None" and mem: "c \<in> set (clients st)"
    and del: "DeletedAt c = None" by auto
  have npos: "1 \<le> ?N" using nonempty by (cases "Messages req") simp_all
  have auth: "APIKeyAuth bcrypt_ok e st apiKey apiSecret = Inr c"
    using creds found secret active monthly daily npos by (simp add: APIKeyAuth_def)
  have route: "POST_sms_send_bulk bcrypt_ok e ?x apiKey apiSecret (Decoded req) st =
      SendBulkSMS e ?x (Decoded req) (Some c) st"
    by (simp add: POST_sms_send_bulk_def auth)
  have pre: "\<not> wrap64 (DailyUsage c + ?N) > DailyLimit c"
  proof -
    have "is_int64 (DailyUsage c + ?N)"
      using range daily by (simp add: is_int64_def)
    then show ?thesis using daily by (simp add: wrap64_id)
  qed
  have completed: "http_completed ?x" by simp
  from nonempty bound valid completed pre range(4) show ?thesis
  proof (cases rule: SendBulkSMS_accepted[where e = e and st = st])
    case (accepted outcome' newlogs s)
    have o: "outcome' = outcome" using accepted(1) by (simp add: SendSMS_def)
    have "\<forall>k<length newlogs. log_Status (newlogs ! k) = ''sent''"
      using accepted(9) accepted(4) all_sent o by auto
    then have fs: "filter (\<lambda>l. log_Status l = ''sent'') newlogs = newlogs"
      and ff: "filter (\<lambda>l. log_Status l \<noteq> ''sent'') newlogs = []"
      by (simp_all add: filter_all_nth filter_none_nth)
    have s: "s = ?N" using accepted(2) accepted(4) fs by simp
    have wd: "wrap64 (DailyUsage c + ?N) = DailyUsage c + ?N"
      using daily range by (intro wrap64_id) (simp add: is_int64_def)
    have wm: "wrap64 (MonthlyUsage c + ?N) = MonthlyUsage c + ?N"
      using range by (intro wrap64_id) simp
    let ?c' = "c\<lparr>DailyUsage := DailyUsage c + ?N, MonthlyUsage := MonthlyUsage c + ?N,
                 UpdatedAt := db_now e\<rparr>"
    have in_ids: "ID c \<in> ID ` set (clients st)" using mem by blast
    have rows: "clients (snd (SendBulkSMS e ?x (Decoded req) (Some c) st)) =
        map (\<lambda>r. if ID r = ID c then ?c' else r) (clients st)"
      using accepted(6) writable in_ids by (simp add: s wd wm)
    have look: "db_First e (snd (SendBulkSMS e ?x (Decoded req) (Some c) st)) (\<lambda>r. ID r = ID c) = Inr ?c'"
      using find_replaced_by_id[OF mem, of ?c'] del rd by (simp add: db_First_def rows)
    show ?thesis
      unfolding route
    proof (intro exI conjI)
      show "fst (SendBulkSMS e ?x (Decoded req) (Some c) st) =
        (StatusOK,
         \<lparr>Success = True, resp_Message = ''Bulk SMS processing completed'',
          Data = Bulk ?N ?N 0 (map (\<lambda>l. (log_ID l, Recipient l, log_Status l)) newlogs),
          Error = []\<rparr>)"
        using accepted(3) by (simp add: s ff)
      show "db_First e (snd (SendBulkSMS e ?x (Decoded req) (Some c) st)) (\<lambda>r. ID r = ID c) = Inr ?c'"
        by (rule look)
      show "MonthlyLimit ?c' = MonthlyLimit c" by simp
      show "MonthlyUsage ?c' = MonthlyUsage c + ?N" by simp
      show "MonthlyUsage ?c' - MonthlyLimit ?c' \<le> ?N - 1" using monthly by simp
      show "MonthlyUsage c + ?N > MonthlyLimit c \<longrightarrow> MonthlyUsage ?c' > MonthlyLimit ?c'" by simp
    qed
  qed
qed

theorem bulk_precheck_ignores_monthly_quota_witness:
  "MonthlyUsage example_client < MonthlyLimit example_client
   \<and> MonthlyUsage example_client + 2 > MonthlyLimit example_client
   \<and> fst (POST_sms_send_bulk example_bcrypt example_env
             (Body_decoded \<lparr>Status = ''Success'', Message = ''queued''\<rparr>) ''key-1'' ''s3cret''
             (Decoded \<lparr>Messages = [example_message, example_message]\<rparr>) example_world) =
        (StatusOK,
         \<lparr>Success = True, resp_Message = ''Bulk SMS processing completed'',
          Data = Bulk 2 2 0 [(1, ''+256701234567'', ''sent''), (2, ''+256701234567'', ''sent'')],
          Error = []\<rparr>)
   \<and> map MonthlyUsage (clients (snd (POST_sms_send_bulk example_bcrypt example_env
             (Body_decoded \<lparr>Status = ''Success'', Message = ''queued''\<rparr>) ''key-1'' ''s3cret''
             (Decoded \<lparr>Messages = [example_message, example_message]\<rparr>) example_world))) =
        [21, 25]
   \<and> map MonthlyLimit (clients (snd (POST_sms_send_bulk example_bcrypt example_env
             (Body_decoded \<lparr>Status = ''Success'', Message = ''queued''\<rparr>) ''key-1'' ''s3cret''
             (Decoded \<lparr>Messages = [example_message, example_message]\<rparr>) example_world))) =
        [20, 20]"
proof -
  have creds: "''key-1'' \<noteq> []" "''s3cret'' \<noteq> []"
    by simp_all
  have monthly: "MonthlyUsage example_client < MonthlyLimit example_client"
    by (simp add: example_client_facts)
  have daily: "DailyUsage example_client
      + int (length (Messages \<lparr>Messages = [example_message, example_message]\<rparr>))
      \<le> DailyLimit example_client"
    by (simp add: example_client_facts)
  have all_sent: "Status \<lparr>Status = ''Success'', Message = ''queued''\<rparr> = ''Success''
      \<or> Status \<lparr>Status = ''Success'', Message = ''queued''\<rparr> = ''success''"
    by simp
  have range: "is_int64 (DailyUsage example_client)" "is_int64 (DailyLimit example_client)"
      "is_int64 (MonthlyUsage example_client)"
      "is_int64 (int (length (Messages \<lparr>Messages = [example_message, example_message]\<rparr>)))"
      "is_int64 (MonthlyUsage example_client
         + int (length (Messages \<lparr>Messages = [example_message, example_message]\<rparr>)))"
    by (simp_all add: is_int64_def example_client_facts)
  from bulk_precheck_ignores_monthly_quota
    [where bcrypt_ok = example_bcrypt and apiKey = "''key-1''" and apiSecret = "''s3cret''",
     OF creds example_lookups(1) example_client_facts(8) example_client_facts(7) monthly daily
        example_batch(1) example_batch(2) example_batch(3) example_env_writable all_sent range]
  show ?thesis
    by (simp add: POST_sms_send_bulk_def example_auth example_bulk_sent example_client_facts
          exhausted_client_facts)
qed

end
